theory Spec2Isabelle
  imports Main "HOL-Library.Word"
begin

section \<open>Data model\<close>

text \<open>
  The development embeds two translation units of librbd: the image requests
  (\<open>AioImageRequest::send\<close> and the \<open>send_request\<close> bodies of the write, discard and
  flush variants) and the request work queue \<open>AioImageRequestWQ\<close>.

  Offsets and lengths are \<open>uint64_t\<close> in the source and 64-bit words here. A buffer is
  the list of bytes the caller's pointer designates. An \<open>AioCompletion *\<close> is
  represented by a number that identifies the completion.
\<close>

type_synonym u64 = "64 word"
type_synonym byte = "8 word"
type_synonym completion = nat
type_synonym snap_context = "u64 \<times> u64 list"

text \<open>
  \<open>ObjectExtent\<close> with the members the requests read: \<open>oid.name\<close>, \<open>objectno\<close>,
  \<open>offset\<close>, \<open>length\<close> and \<open>buffer_extents\<close> (offset within the caller's buffer and
  length of each slice).
\<close>

record object_extent =
  oe_oid :: string
  oe_objectno :: u64
  oe_offset :: u64
  oe_length :: u64
  oe_buffer_extents :: "(u64 \<times> u64) list"

text \<open>
  The image watcher as the queue and the requests see it. \<open>is_lock_supported\<close> and
  \<open>is_lock_owner\<close> are its two queries; \<open>watcher_calls\<close> logs, oldest first, the calls
  \<open>flag_aio_ops_pending()\<close>, \<open>clear_aio_ops_pending()\<close> and \<open>request_lock()\<close> it has
  received, and \<open>aio_ops_pending\<close> is its "async ops pending" flag.
\<close>

datatype watcher_call = FlagAioOpsPending | ClearAioOpsPending | RequestLock

record image_watcher =
  is_lock_supported :: bool
  is_lock_owner :: bool
  aio_ops_pending :: bool
  watcher_calls :: "watcher_call list"

text \<open>
  \<open>ImageCtx\<close> with the members read by the two units. \<open>journal\<close> and \<open>object_cacher\<close>
  say whether the respective pointer is non-\<open>NULL\<close>; \<open>image_watcher\<close> is \<open>None\<close> for a
  \<open>NULL\<close> pointer. \<open>fl_object_size\<close> is \<open>layout.fl_object_size\<close>, and
  \<open>rbd_skip_partial_discard\<close> the configuration value \<open>cct->_conf->rbd_skip_partial_discard\<close>.
\<close>

record image_ctx =
  snap_id :: u64
  read_only :: bool
  snapc :: snap_context
  fl_object_size :: u64
  object_cacher :: bool
  journal :: bool
  image_watcher :: "image_watcher option"
  non_blocking_aio :: bool
  rbd_skip_partial_discard :: bool

text \<open>
  The four request variants. A write carries completion, offset, length, source buffer,
  operation flags and the \<open>m_synchronous\<close> marker; a discard carries completion, offset,
  length and the marker; a read carries completion, its image extents and flags.
\<close>

datatype aio_image_request =
    AioImageRead completion "(u64 \<times> u64) list" int
  | AioImageWrite completion u64 u64 "byte list" int bool
  | AioImageDiscard completion u64 u64 bool
  | AioImageFlush completion

text \<open>The per-object requests a write or a discard constructs.\<close>

datatype object_request =
    AioObjectWrite string u64 u64 "byte list" snap_context int
  | AioObjectRemove string u64 snap_context
  | AioObjectTruncate string u64 u64 snap_context
  | AioObjectZero string u64 u64 u64 snap_context

datatype journal_event =
    AioWriteEvent u64 u64 "byte list"
  | AioDiscardEvent u64 u64
  | AioFlushEvent

datatype aio_type = AIO_TYPE_READ | AIO_TYPE_WRITE | AIO_TYPE_DISCARD | AIO_TYPE_FLUSH

datatype perf_counter =
  l_librbd_wr | l_librbd_wr_bytes | l_librbd_discard | l_librbd_discard_bytes | l_librbd_aio_flush

text \<open>
  What a request does is the sequence of calls it issues to its collaborators (the
  completion aggregate, the object store, the cache, the journal, the counters), in
  program order:
  \<^item> \<open>CompGet\<close>, \<open>CompFail\<close>, \<open>CompInitTime\<close>, \<open>CompFinishAddingRequests\<close>, \<open>CompPut\<close>:
    \<open>m_aio_comp->get()\<close>, \<open>fail(cct, r)\<close>, \<open>init_time(..)\<close>, \<open>finish_adding_requests(cct)\<close>, \<open>put()\<close>;
  \<^item> \<open>NewAioRequest\<close>: \<open>new C_AioRequest(cct, m_aio_comp)\<close>; \<open>DeleteContext\<close>: \<open>delete on_finish\<close>;
  \<^item> \<open>ObjectSend\<close>: \<open>request->send()\<close> on a per-object request;
  \<^item> \<open>JournalAppendEvent\<close>: \<open>journal->append_event(m_aio_comp, event_entry, requests, synchronous)\<close>;
  \<^item> \<open>WriteToCache\<close>: \<open>write_to_cache(oid, bl, length, offset, req_comp, op_flags)\<close>;
    \<open>CacheDiscardSet\<close>: \<open>object_cacher->discard_set(object_set, object_extents)\<close>;
  \<^item> \<open>FlushAsyncOperations\<close>, \<open>FlushCacheAio\<close>, \<open>DataCtxAioFlushAsync\<close>: the three calls of a flush;
  \<^item> \<open>PerfInc\<close>: \<open>perfcounter->inc(counter, amount)\<close>;
  \<^item> \<open>ReadRequest\<close>: the body of \<open>AioImageRead::send_request\<close>, which no property below
    looks into and which is recorded as one step.
\<close>

datatype call =
    CompGet completion
  | CompFail completion int
  | CompInitTime completion aio_type
  | NewAioRequest completion
  | DeleteContext completion
  | ObjectSend object_request
  | JournalAppendEvent completion journal_event "object_request list" bool
  | WriteToCache string "byte list" u64 u64 int
  | CacheDiscardSet "object_extent list"
  | FlushAsyncOperations
  | FlushCacheAio
  | DataCtxAioFlushAsync
  | CompFinishAddingRequests completion
  | CompPut completion
  | PerfInc perf_counter u64
  | ReadRequest completion "(u64 \<times> u64) list" int

text \<open>
  The two ways a call aborts the process: a failed \<open>assert\<close>, and a member call through
  a \<open>NULL\<close> image watcher.
\<close>

datatype fault = AssertionFailure | NullPointerDereference

text \<open>
  Functions the two units call and whose code is not part of the sources at hand are
  parameters of the model:
  \<^item> \<open>clip_io\<close>: \<open>clip_io(ictx, off, &len)\<close>, returning the result code and the clipped length;
  \<^item> \<open>file_to_extents\<close>: \<open>Striper::file_to_extents(cct, format_string, &layout, off, len, 0, object_extents)\<close>;
  \<^item> \<open>ictx_check\<close>: the result of \<open>ictx_check(ictx, owner_lock)\<close>;
  \<^item> \<open>flush_is_write_op\<close>: what \<open>AioImageFlush::is_write_op()\<close> returns.
\<close>

record collaborators =
  clip_io :: "image_ctx \<Rightarrow> u64 \<Rightarrow> u64 \<Rightarrow> int \<times> u64"
  file_to_extents :: "image_ctx \<Rightarrow> u64 \<Rightarrow> u64 \<Rightarrow> object_extent list"
  ictx_check :: "image_ctx \<Rightarrow> int"
  flush_is_write_op :: bool

definition CEPH_NOSNAP :: u64 where
  "CEPH_NOSNAP = - 2"

definition EROFS :: int where
  "EROFS = 30"

section \<open>Image requests\<close>

fun m_aio_comp :: "aio_image_request \<Rightarrow> completion" where
  "m_aio_comp (AioImageRead c exts fl) = c"
| "m_aio_comp (AioImageWrite c off len buf fl sy) = c"
| "m_aio_comp (AioImageDiscard c off len sy) = c"
| "m_aio_comp (AioImageFlush c) = c"

text \<open>
  \<open>AioImageWrite::assemble_extent\<close>: the bytes \<open>m_buf + q->first\<close>, \<open>q->second\<close> of them,
  for each buffer extent in turn.
\<close>

definition assemble_extent :: "byte list \<Rightarrow> object_extent \<Rightarrow> byte list" where
  "assemble_extent buf oe =
     concat (map (\<lambda>(first, second). take (unat second) (drop (unat first) buf))
                 (oe_buffer_extents oe))"

text \<open>
  The virtual \<open>send_object_request\<close>: the calls it issues itself and the request it
  returns (\<open>None\<close> for \<open>NULL\<close>). \<open>AioImageWrite\<close> returns \<open>NULL\<close> when a cache is present;
  \<open>AioImageDiscard\<close> selects the request by the extent's geometry.
\<close>

fun send_object_request ::
  "image_ctx \<Rightarrow> aio_image_request \<Rightarrow> object_extent \<Rightarrow> snap_context \<Rightarrow>
   call list \<times> object_request option" where
  "send_object_request ctx (AioImageWrite c off len buf op_flags sy) oe sc =
     (if object_cacher ctx then ([], None)
      else ([], Some (AioObjectWrite (oe_oid oe) (oe_objectno oe) (oe_offset oe)
                        (assemble_extent buf oe) sc op_flags)))"
| "send_object_request ctx (AioImageDiscard c off len sy) oe sc =
     (if oe_length oe = fl_object_size ctx
      then ([], Some (AioObjectRemove (oe_oid oe) (oe_objectno oe) sc))
      else if oe_offset oe + oe_length oe = fl_object_size ctx
      then ([], Some (AioObjectTruncate (oe_oid oe) (oe_objectno oe) (oe_offset oe) sc))
      else if rbd_skip_partial_discard ctx
      then ([DeleteContext c], None)
      else ([], Some (AioObjectZero (oe_oid oe) (oe_objectno oe) (oe_offset oe)
                        (oe_length oe) sc)))"
| "send_object_request ctx req oe sc = ([], None)"

text \<open>
  \<open>AbstractAioImageWrite::send_object_requests\<close>. \<open>stash\<close> says that the pointer
  \<open>aio_object_requests\<close> is non-\<open>NULL\<close>; the result is the calls issued and the list
  the requests were pushed onto.
\<close>

fun send_object_requests ::
  "image_ctx \<Rightarrow> aio_image_request \<Rightarrow> snap_context \<Rightarrow> bool \<Rightarrow> object_extent list \<Rightarrow>
   call list \<times> object_request list" where
  "send_object_requests ctx req sc stash [] = ([], [])"
| "send_object_requests ctx req sc stash (p # ps) =
     (case send_object_request ctx req p sc of (made, request) \<Rightarrow>
      case send_object_requests ctx req sc stash ps of (calls, requests) \<Rightarrow>
        (case request of
           None \<Rightarrow> (NewAioRequest (m_aio_comp req) # made @ calls, requests)
         | Some r \<Rightarrow>
             if stash then (NewAioRequest (m_aio_comp req) # made @ calls, r # requests)
             else (NewAioRequest (m_aio_comp req) # made @ ObjectSend r # calls, requests)))"

text \<open>The virtual \<open>append_journal_event\<close> of the write and of the discard.\<close>

fun append_journal_event :: "aio_image_request \<Rightarrow> object_request list \<Rightarrow> call list" where
  "append_journal_event (AioImageWrite c off len buf op_flags sy) requests =
     [JournalAppendEvent c (AioWriteEvent off len (take (unat len) buf)) requests sy]"
| "append_journal_event (AioImageDiscard c off len sy) requests =
     [JournalAppendEvent c (AioDiscardEvent off len) requests sy]"
| "append_journal_event req requests = []"

text \<open>The virtual \<open>send_cache_requests\<close>.\<close>

fun send_cache_requests :: "aio_image_request \<Rightarrow> object_extent list \<Rightarrow> call list" where
  "send_cache_requests (AioImageWrite c off len buf op_flags sy) object_extents =
     concat (map (\<lambda>oe. [NewAioRequest c,
                         WriteToCache (oe_oid oe) (assemble_extent buf oe) (oe_length oe)
                           (oe_offset oe) op_flags])
                 object_extents)"
| "send_cache_requests (AioImageDiscard c off len sy) object_extents =
     [CacheDiscardSet object_extents]"
| "send_cache_requests req object_extents = []"

fun update_stats :: "aio_image_request \<Rightarrow> u64 \<Rightarrow> call list" where
  "update_stats (AioImageWrite c off len buf op_flags sy) n =
     [PerfInc l_librbd_wr 1, PerfInc l_librbd_wr_bytes n]"
| "update_stats (AioImageDiscard c off len sy) n =
     [PerfInc l_librbd_discard 1, PerfInc l_librbd_discard_bytes n]"
| "update_stats req n = []"

fun get_aio_type :: "aio_image_request \<Rightarrow> aio_type" where
  "get_aio_type (AioImageRead c exts fl) = AIO_TYPE_READ"
| "get_aio_type (AioImageWrite c off len buf op_flags sy) = AIO_TYPE_WRITE"
| "get_aio_type (AioImageDiscard c off len sy) = AIO_TYPE_DISCARD"
| "get_aio_type (AioImageFlush c) = AIO_TYPE_FLUSH"

text \<open>
  \<open>AbstractAioImageWrite::send_request\<close>, for a request at offset \<open>m_off\<close> and of length
  \<open>m_len\<close>. The result is the calls issued and, when the process aborts, the fault.
  The entry assertion reads the image watcher without testing the pointer.
\<close>

definition write_send_request ::
  "collaborators \<Rightarrow> image_ctx \<Rightarrow> aio_image_request \<Rightarrow> u64 \<Rightarrow> u64 \<Rightarrow> call list \<times> fault option" where
  "write_send_request ext ctx req m_off m_len =
     (case image_watcher ctx of
        None \<Rightarrow> ([], Some NullPointerDereference)
      | Some iw \<Rightarrow>
          if \<not> (\<not> is_lock_supported iw \<or> is_lock_owner iw) then ([], Some AssertionFailure)
          else if snap_id ctx \<noteq> CEPH_NOSNAP \<or> read_only ctx
          then ([CompFail (m_aio_comp req) (- EROFS)], None)
          else
            (case clip_io ext ctx m_off m_len of (r, clip_len) \<Rightarrow>
               if r < 0 then ([CompFail (m_aio_comp req) r], None)
               else
                 (case send_object_requests ctx req (snapc ctx) (journal ctx)
                         (if clip_len > 0 then file_to_extents ext ctx m_off clip_len else [])
                  of (calls, requests) \<Rightarrow>
                    (CompInitTime (m_aio_comp req) (get_aio_type req) # calls
                       @ (if journal ctx then append_journal_event req requests else [])
                       @ (if object_cacher ctx
                          then send_cache_requests req
                                 (if clip_len > 0 then file_to_extents ext ctx m_off clip_len else [])
                          else [])
                       @ update_stats req clip_len
                       @ [CompFinishAddingRequests (m_aio_comp req), CompPut (m_aio_comp req)],
                     None))))"

text \<open>\<open>AioImageFlush::send_request\<close>.\<close>

definition flush_send_request :: "image_ctx \<Rightarrow> completion \<Rightarrow> call list" where
  "flush_send_request ctx c =
     (if journal ctx then [JournalAppendEvent c AioFlushEvent [] True] else [])
     @ [NewAioRequest c, FlushAsyncOperations, CompInitTime c AIO_TYPE_FLUSH, NewAioRequest c]
     @ (if object_cacher ctx then [FlushCacheAio] else [DataCtxAioFlushAsync])
     @ [CompFinishAddingRequests c, CompPut c, PerfInc l_librbd_aio_flush 1]"

text \<open>The virtual \<open>send_request\<close>, by variant.\<close>

fun send_request ::
  "collaborators \<Rightarrow> image_ctx \<Rightarrow> aio_image_request \<Rightarrow> call list \<times> fault option" where
  "send_request ext ctx (AioImageRead c exts fl) = ([ReadRequest c exts fl], None)"
| "send_request ext ctx (AioImageWrite c off len buf op_flags sy) =
     write_send_request ext ctx (AioImageWrite c off len buf op_flags sy) off len"
| "send_request ext ctx (AioImageDiscard c off len sy) =
     write_send_request ext ctx (AioImageDiscard c off len sy) off len"
| "send_request ext ctx (AioImageFlush c) = (flush_send_request ctx c, None)"

text \<open>\<open>AioImageRequest::send\<close>.\<close>

definition send ::
  "collaborators \<Rightarrow> image_ctx \<Rightarrow> aio_image_request \<Rightarrow> call list \<times> fault option" where
  "send ext ctx req =
     (if ictx_check ext ctx < 0
      then ([CompGet (m_aio_comp req), CompFail (m_aio_comp req) (ictx_check ext ctx)], None)
      else (case send_request ext ctx req of (calls, flt) \<Rightarrow>
              (CompGet (m_aio_comp req) # calls, flt)))"

text \<open>The object requests sent, and the journal appends made, by a sequence of calls.\<close>

fun object_sends :: "call list \<Rightarrow> object_request list" where
  "object_sends [] = []"
| "object_sends (ObjectSend r # cs) = r # object_sends cs"
| "object_sends (c # cs) = object_sends cs"

fun journal_appends :: "call list \<Rightarrow> (journal_event \<times> object_request list \<times> bool) list" where
  "journal_appends [] = []"
| "journal_appends (JournalAppendEvent c ev requests sy # cs) =
     (ev, requests, sy) # journal_appends cs"
| "journal_appends (c # cs) = journal_appends cs"

fun cache_calls :: "call list \<Rightarrow> call list" where
  "cache_calls [] = []"
| "cache_calls (WriteToCache oid bl len off fl # cs) =
     WriteToCache oid bl len off fl # cache_calls cs"
| "cache_calls (CacheDiscardSet exts # cs) = CacheDiscardSet exts # cache_calls cs"
| "cache_calls (c # cs) = cache_calls cs"

section \<open>The request work queue\<close>

text \<open>
  The state of an \<open>AioImageRequestWQ\<close>: the image context it refers to, the items of
  the underlying \<open>ThreadPool::PointerWQ\<close> (front first), the two counters, the
  suspension flag, the calls issued so far by requests that were sent, and the fault
  with which the process aborted, if it did.
\<close>

record wq =
  m_image_ctx :: image_ctx
  m_items :: "aio_image_request list"
  m_queued_writes :: nat
  m_in_progress_writes :: nat
  m_writes_suspended :: bool
  m_trace :: "call list"
  m_fault :: "fault option"

text \<open>
  Modelled from the spec: \<open>is_write_op()\<close> is declared in \<open>AioImageRequest.h\<close>, which is
  not among the sources. The spec has the queue hold back and count write requests and
  keep dispatching read requests, and has a discard follow the flow of a write: a write and
  a discard are write operations, a read is not. What a flush answers is the parameter
  \<open>flush_is_write_op\<close>.
\<close>

fun is_write_op :: "collaborators \<Rightarrow> aio_image_request \<Rightarrow> bool" where
  "is_write_op ext (AioImageRead c exts fl) = False"
| "is_write_op ext (AioImageWrite c off len buf op_flags sy) = True"
| "is_write_op ext (AioImageDiscard c off len sy) = True"
| "is_write_op ext (AioImageFlush c) = flush_is_write_op ext"

text \<open>
  Modelled from the spec: \<open>ImageWatcher\<close> is not among the sources. Raising and clearing
  the "async ops pending" flag are \<open>flag_aio_ops_pending()\<close> and
  \<open>clear_aio_ops_pending()\<close>; \<open>request_lock()\<close> initiates a lock acquisition, of which
  only the call is recorded.
\<close>

definition flag_aio_ops_pending :: "image_watcher \<Rightarrow> image_watcher" where
  "flag_aio_ops_pending iw =
     iw\<lparr>aio_ops_pending := True, watcher_calls := watcher_calls iw @ [FlagAioOpsPending]\<rparr>"

definition clear_aio_ops_pending :: "image_watcher \<Rightarrow> image_watcher" where
  "clear_aio_ops_pending iw =
     iw\<lparr>aio_ops_pending := False, watcher_calls := watcher_calls iw @ [ClearAioOpsPending]\<rparr>"

definition request_lock :: "image_watcher \<Rightarrow> image_watcher" where
  "request_lock iw = iw\<lparr>watcher_calls := watcher_calls iw @ [RequestLock]\<rparr>"

definition set_watcher :: "image_watcher \<Rightarrow> wq \<Rightarrow> wq" where
  "set_watcher iw s = s\<lparr>m_image_ctx := (m_image_ctx s)\<lparr>image_watcher := Some iw\<rparr>\<rparr>"

text \<open>\<open>AioImageRequestWQ::is_lock_required\<close>.\<close>

definition is_lock_required :: "wq \<Rightarrow> bool" where
  "is_lock_required s =
     (case image_watcher (m_image_ctx s) of
        None \<Rightarrow> False
      | Some iw \<Rightarrow> is_lock_supported iw \<and> \<not> is_lock_owner iw)"

text \<open>
  Modelled from the spec: \<open>writes_empty()\<close> is declared in \<open>AioImageRequestWQ.h\<close>, which
  is not among the sources; the writes queue is empty when no write is counted in
  \<open>queued_writes\<close>.
\<close>

definition writes_empty :: "wq \<Rightarrow> bool" where
  "writes_empty s = (m_queued_writes s = 0)"

text \<open>
  \<open>AioImageRequestWQ::queue\<close>. The counter is incremented and the request appended
  first; the watcher is called afterwards, and only for the first queued write
  operation. The calls go through the watcher pointer without a test.
\<close>

definition queue :: "collaborators \<Rightarrow> aio_image_request \<Rightarrow> bool \<Rightarrow> wq \<Rightarrow> wq" where
  "queue ext req lock_required s =
     (let first_write_op = (is_write_op ext req \<and> m_queued_writes s + 1 = 1);
          s1 = s\<lparr>m_queued_writes :=
                    (if is_write_op ext req then m_queued_writes s + 1 else m_queued_writes s),
                 m_items := m_items s @ [req]\<rparr>
      in if first_write_op
         then (case image_watcher (m_image_ctx s1) of
                 None \<Rightarrow> s1\<lparr>m_fault := Some NullPointerDereference\<rparr>
               | Some iw \<Rightarrow>
                   set_watcher (if lock_required then request_lock (flag_aio_ops_pending iw)
                                else flag_aio_ops_pending iw) s1)
         else s1)"

text \<open>
  The two parts of \<open>queue\<close> as other threads see them. In the first the counter is
  incremented under \<open>m_lock\<close> and, the mutex released, the request is handed to
  \<open>ThreadPool::PointerWQ::queue\<close>: from then on a worker can dequeue it. In the second
  the watcher is called, outside the mutex, if the first part has found the request to
  be the first queued write operation.
\<close>

definition queue_enter :: "collaborators \<Rightarrow> aio_image_request \<Rightarrow> wq \<Rightarrow> bool \<times> wq" where
  "queue_enter ext req s =
     (is_write_op ext req \<and> m_queued_writes s + 1 = 1,
      s\<lparr>m_queued_writes :=
           (if is_write_op ext req then m_queued_writes s + 1 else m_queued_writes s),
        m_items := m_items s @ [req]\<rparr>)"

definition queue_leave :: "bool \<Rightarrow> bool \<Rightarrow> wq \<Rightarrow> wq" where
  "queue_leave lock_required first_write_op s =
     (if first_write_op
      then (case image_watcher (m_image_ctx s) of
              None \<Rightarrow> s\<lparr>m_fault := Some NullPointerDereference\<rparr>
            | Some iw \<Rightarrow>
                set_watcher (if lock_required then request_lock (flag_aio_ops_pending iw)
                             else flag_aio_ops_pending iw) s)
      else s)"

text \<open>
  The static functions \<open>AioImageRequest::aio_read\<close>, \<open>aio_write\<close>, \<open>aio_discard\<close> and
  \<open>aio_flush\<close>: each constructs its request on the stack and calls \<open>send()\<close> on it, on
  the caller's thread.
\<close>

definition static_send :: "collaborators \<Rightarrow> aio_image_request \<Rightarrow> wq \<Rightarrow> wq" where
  "static_send ext req s =
     (case send ext (m_image_ctx s) req of (calls, flt) \<Rightarrow>
        s\<lparr>m_trace := m_trace s @ calls, m_fault := flt\<rparr>)"

text \<open>
  The four submissions. The constructors are declared in \<open>AioImageRequest.h\<close>; a request
  is taken to start with its \<open>m_synchronous\<close> marker cleared.
\<close>

definition aio_read :: "collaborators \<Rightarrow> completion \<Rightarrow> u64 \<Rightarrow> u64 \<Rightarrow> int \<Rightarrow> wq \<Rightarrow> wq" where
  "aio_read ext c off len op_flags s =
     (if non_blocking_aio (m_image_ctx s)
      then queue ext (AioImageRead c [(off, len)] op_flags) False s
      else static_send ext (AioImageRead c [(off, len)] op_flags) s)"

definition aio_write ::
  "collaborators \<Rightarrow> completion \<Rightarrow> u64 \<Rightarrow> u64 \<Rightarrow> byte list \<Rightarrow> int \<Rightarrow> wq \<Rightarrow> wq" where
  "aio_write ext c off len buf op_flags s =
     (if non_blocking_aio (m_image_ctx s) \<or> is_lock_required s
      then queue ext (AioImageWrite c off len buf op_flags False) (is_lock_required s) s
      else static_send ext (AioImageWrite c off len buf op_flags False) s)"

definition aio_discard :: "collaborators \<Rightarrow> completion \<Rightarrow> u64 \<Rightarrow> u64 \<Rightarrow> wq \<Rightarrow> wq" where
  "aio_discard ext c off len s =
     (if non_blocking_aio (m_image_ctx s) \<or> is_lock_required s
      then queue ext (AioImageDiscard c off len False) (is_lock_required s) s
      else static_send ext (AioImageDiscard c off len False) s)"

definition aio_flush :: "collaborators \<Rightarrow> completion \<Rightarrow> wq \<Rightarrow> wq" where
  "aio_flush ext c s =
     (if non_blocking_aio (m_image_ctx s) \<or> \<not> writes_empty s
      then queue ext (AioImageFlush c) False s
      else static_send ext (AioImageFlush c) s)"

text \<open>
  \<open>AioImageRequestWQ::write\<close> and \<open>discard\<close>, the synchronous wrappers. \<open>c\<close> is the
  completion \<open>aio_create_completion_internal\<close> returns and \<open>waited\<close> the value
  \<open>cond.wait()\<close> delivers, that is, the result with which that completion fires. The
  wrapper returns its \<open>ssize_t\<close> (\<open>int\<close> for the discard, to which the 64-bit length is
  converted) and the state.
\<close>

definition wq_write ::
  "collaborators \<Rightarrow> completion \<Rightarrow> int \<Rightarrow> u64 \<Rightarrow> u64 \<Rightarrow> byte list \<Rightarrow> int \<Rightarrow> wq \<Rightarrow> int \<times> wq" where
  "wq_write ext c waited off len buf op_flags s =
     (case clip_io ext (m_image_ctx s) off len of (r, len') \<Rightarrow>
        if r < 0 then (r, s)
        else if waited < 0 then (waited, aio_write ext c off len' buf op_flags s)
        else (sint len', aio_write ext c off len' buf op_flags s))"

definition wq_discard ::
  "collaborators \<Rightarrow> completion \<Rightarrow> int \<Rightarrow> u64 \<Rightarrow> u64 \<Rightarrow> wq \<Rightarrow> int \<times> wq" where
  "wq_discard ext c waited off len s =
     (case clip_io ext (m_image_ctx s) off len of (r, len') \<Rightarrow>
        if r < 0 then (r, s)
        else if waited < 0 then (waited, aio_discard ext c off len' s)
        else (sint (ucast len' :: 32 word), aio_discard ext c off len' s))"

text \<open>
  \<open>AioImageRequestWQ::_void_dequeue\<close>: the item handed to the worker (\<open>None\<close> for \<open>NULL\<close>)
  and the state. The suspension test and the increment happen under \<open>m_lock\<close>.
\<close>

definition void_dequeue :: "collaborators \<Rightarrow> wq \<Rightarrow> aio_image_request option \<times> wq" where
  "void_dequeue ext s =
     (case m_items s of
        [] \<Rightarrow> (None, s)
      | peek_item # rest \<Rightarrow>
          if is_write_op ext peek_item
          then (if m_writes_suspended s then (None, s)
                else (Some peek_item,
                      s\<lparr>m_in_progress_writes := m_in_progress_writes s + 1, m_items := rest\<rparr>))
          else (Some peek_item, s\<lparr>m_items := rest\<rparr>))"

text \<open>
  \<open>AioImageRequestWQ::process\<close>: the request is sent, then, for a write operation, the
  two counters are decremented under \<open>m_lock\<close>, each behind its assertion.
\<close>

definition process :: "collaborators \<Rightarrow> aio_image_request \<Rightarrow> wq \<Rightarrow> wq" where
  "process ext req s =
     (case send ext (m_image_ctx s) req of (calls, flt) \<Rightarrow>
        (case flt of
           Some f \<Rightarrow> s\<lparr>m_trace := m_trace s @ calls, m_fault := Some f\<rparr>
         | None \<Rightarrow>
             if \<not> is_write_op ext req then s\<lparr>m_trace := m_trace s @ calls\<rparr>
             else if m_queued_writes s = 0
             then s\<lparr>m_trace := m_trace s @ calls, m_fault := Some AssertionFailure\<rparr>
             else if m_queued_writes s - 1 = 0
             then (case image_watcher (m_image_ctx s) of
                     None \<Rightarrow> s\<lparr>m_trace := m_trace s @ calls, m_queued_writes := 0,
                               m_fault := Some NullPointerDereference\<rparr>
                   | Some iw \<Rightarrow>
                       if m_in_progress_writes s = 0
                       then set_watcher (clear_aio_ops_pending iw)
                              (s\<lparr>m_trace := m_trace s @ calls, m_queued_writes := 0,
                                 m_fault := Some AssertionFailure\<rparr>)
                       else set_watcher (clear_aio_ops_pending iw)
                              (s\<lparr>m_trace := m_trace s @ calls, m_queued_writes := 0,
                                 m_in_progress_writes := m_in_progress_writes s - 1\<rparr>))
             else if m_in_progress_writes s = 0
             then s\<lparr>m_trace := m_trace s @ calls, m_queued_writes := m_queued_writes s - 1,
                    m_fault := Some AssertionFailure\<rparr>
             else s\<lparr>m_trace := m_trace s @ calls, m_queued_writes := m_queued_writes s - 1,
                    m_in_progress_writes := m_in_progress_writes s - 1\<rparr>))"

text \<open>
  \<open>AioImageRequestWQ::suspend_writes\<close>: the flag is set, then the caller waits on
  \<open>m_cond\<close> while \<open>m_in_progress_writes > 0\<close>. Each \<open>m_cond.Wait(m_lock)\<close> releases the
  mutex and returns after other threads have acted; \<open>others\<close> lists, wait by wait, what
  they did to the state. The result is \<open>None\<close> when the caller is still waiting after
  the last of them.
\<close>

fun wait_in_progress_writes :: "(wq \<Rightarrow> wq) list \<Rightarrow> wq \<Rightarrow> wq option" where
  "wait_in_progress_writes [] s = (if m_in_progress_writes s > 0 then None else Some s)"
| "wait_in_progress_writes (other # others) s =
     (if m_in_progress_writes s > 0 then wait_in_progress_writes others (other s) else Some s)"

definition suspend_writes :: "(wq \<Rightarrow> wq) list \<Rightarrow> wq \<Rightarrow> wq option" where
  "suspend_writes others s = wait_in_progress_writes others (s\<lparr>m_writes_suspended := True\<rparr>)"

text \<open>\<open>AioImageRequestWQ::resume_writes\<close>; \<open>signal()\<close> wakes the worker pool.\<close>

definition resume_writes :: "wq \<Rightarrow> wq" where
  "resume_writes s = s\<lparr>m_writes_suspended := False\<rparr>"

section \<open>Executions of the queue\<close>

text \<open>
  The queue is driven by client threads (the four submissions, \<open>suspend_writes\<close>,
  \<open>resume_writes\<close>), by the workers of the thread pool (\<open>_void_dequeue\<close>, then \<open>process\<close>
  on the item obtained) and by the lock arbiter, which changes what the watcher
  reports. An execution interleaves these actions; each is taken as one step, a
  submission included: the steps do not separate the two parts of \<open>queue\<close>, between
  which a worker can act. What a worker does between them is looked at on its own, with
  \<open>queue_enter\<close> and \<open>queue_leave\<close>. A configuration pairs the queue's state with the
  items workers have dequeued and not yet processed. No step is taken once the process
  has aborted.
\<close>

datatype action =
    AioRead completion u64 u64 int
  | AioWrite completion u64 u64 "byte list" int
  | AioDiscard completion u64 u64
  | AioFlush completion
  | Dequeue "aio_image_request option"
  | Process aio_image_request
  | SuspendWrites
  | ResumeWrites
  | LockState bool bool

inductive step ::
  "collaborators \<Rightarrow> wq \<times> aio_image_request list \<Rightarrow> action \<Rightarrow>
   wq \<times> aio_image_request list \<Rightarrow> bool" where
  step_read:
    "m_fault s = None \<Longrightarrow>
     step ext (s, fl) (AioRead c off len op_flags) (aio_read ext c off len op_flags s, fl)"
| step_write:
    "m_fault s = None \<Longrightarrow>
     step ext (s, fl) (AioWrite c off len buf op_flags) (aio_write ext c off len buf op_flags s, fl)"
| step_discard:
    "m_fault s = None \<Longrightarrow>
     step ext (s, fl) (AioDiscard c off len) (aio_discard ext c off len s, fl)"
| step_flush:
    "m_fault s = None \<Longrightarrow> step ext (s, fl) (AioFlush c) (aio_flush ext c s, fl)"
| step_dequeue_null:
    "m_fault s = None \<Longrightarrow> void_dequeue ext s = (None, s') \<Longrightarrow>
     step ext (s, fl) (Dequeue None) (s', fl)"
| step_dequeue_item:
    "m_fault s = None \<Longrightarrow> void_dequeue ext s = (Some req, s') \<Longrightarrow>
     step ext (s, fl) (Dequeue (Some req)) (s', fl @ [req])"
| step_process:
    "m_fault s = None \<Longrightarrow> req \<in> set fl \<Longrightarrow>
     step ext (s, fl) (Process req) (process ext req s, remove1 req fl)"
| step_suspend:
    "m_fault s = None \<Longrightarrow>
     step ext (s, fl) SuspendWrites (s\<lparr>m_writes_suspended := True\<rparr>, fl)"
| step_resume:
    "m_fault s = None \<Longrightarrow> step ext (s, fl) ResumeWrites (resume_writes s, fl)"
| step_lock_state:
    "m_fault s = None \<Longrightarrow> image_watcher (m_image_ctx s) = Some iw \<Longrightarrow>
     step ext (s, fl) (LockState supported owner)
       (set_watcher (iw\<lparr>is_lock_supported := supported, is_lock_owner := owner\<rparr>) s, fl)"

inductive run ::
  "collaborators \<Rightarrow> wq \<times> aio_image_request list \<Rightarrow> action list \<Rightarrow>
   wq \<times> aio_image_request list \<Rightarrow> bool" where
  run_nil: "run ext cfg [] cfg"
| run_snoc: "run ext cfg acts cfg' \<Longrightarrow> step ext cfg' a cfg'' \<Longrightarrow> run ext cfg (acts @ [a]) cfg''"

text \<open>
  Modelled from the spec: the constructor of the queue is declared in
  \<open>AioImageRequestWQ.h\<close>, which is not among the sources. A new queue is empty, counts
  no write and is not suspended.
\<close>

definition init_wq :: "image_ctx \<Rightarrow> wq" where
  "init_wq ctx =
     \<lparr>m_image_ctx = ctx, m_items = [], m_queued_writes = 0, m_in_progress_writes = 0,
      m_writes_suspended = False, m_trace = [], m_fault = None\<rparr>"

section \<open>The completion aggregate\<close>

text \<open>
  Modelled from the spec: \<open>AioCompletion\<close> and \<open>C_AioRequest\<close> are not among the sources.
  The aggregate holds a counter of outstanding children, the finish-adding-requests
  marker, a cumulative result and the user callback, of which \<open>callbacks\<close> lists the
  invocations with their results. In the words of the spec: \<open>get()\<close> and \<open>add_child()\<close>
  increment the outstanding count; \<open>finish_adding_requests()\<close> marks no-more-children;
  \<open>complete_child(result)\<close> decrements, updates the cumulative result (the first non-zero
  error wins, with the precedence permission > I/O > not-found) and, if the outstanding
  count is zero and the marker is set, invokes the user callback exactly once;
  \<open>fail(result)\<close> marks the cumulative result and the marker in one step and forces the
  terminal dispatch; \<open>put()\<close> drops the submission reference.
\<close>

record aggregate =
  outstanding :: nat
  finish_marker :: bool
  cumulative :: int
  callbacks :: "int list"

definition new_aggregate :: aggregate where
  "new_aggregate = \<lparr>outstanding = 0, finish_marker = False, cumulative = 0, callbacks = []\<rparr>"

definition dispatch :: "aggregate \<Rightarrow> aggregate" where
  "dispatch a =
     (if outstanding a = 0 \<and> finish_marker a \<and> callbacks a = []
      then a\<lparr>callbacks := [cumulative a]\<rparr> else a)"

definition severity :: "int \<Rightarrow> nat" where
  "severity e = (if e = - 1 then 3 else if e = - 5 then 2 else if e = - 2 then 1 else 0)"

definition worst :: "int \<Rightarrow> int \<Rightarrow> int" where
  "worst cur r =
     (if r = 0 then cur else if cur = 0 then r
      else if severity cur < severity r then r else cur)"

definition add_child :: "aggregate \<Rightarrow> aggregate" where
  "add_child a = a\<lparr>outstanding := outstanding a + 1\<rparr>"

definition complete_child :: "int \<Rightarrow> aggregate \<Rightarrow> aggregate" where
  "complete_child r a =
     dispatch (a\<lparr>outstanding := outstanding a - 1, cumulative := worst (cumulative a) r\<rparr>)"

definition finish_adding_requests :: "aggregate \<Rightarrow> aggregate" where
  "finish_adding_requests a = a\<lparr>finish_marker := True\<rparr>"

definition put_reference :: "aggregate \<Rightarrow> aggregate" where
  "put_reference a = dispatch (a\<lparr>outstanding := outstanding a - 1\<rparr>)"

definition fail :: "int \<Rightarrow> aggregate \<Rightarrow> aggregate" where
  "fail r a =
     (if callbacks a = [] then a\<lparr>cumulative := r, finish_marker := True, callbacks := [r]\<rparr>
      else a\<lparr>cumulative := r, finish_marker := True\<rparr>)"

text \<open>
  Modelled from the spec: what the calls of one request do to its aggregate. Constructing
  a \<open>C_AioRequest\<close> registers a child, whose completion the caller owes; a journal
  append holds the aggregate until its safe callback has arrived. The other calls,
  \<open>delete on_finish\<close> among them, are no operation of the aggregate and leave it alone
  when they are issued.
\<close>

fun apply_call :: "call \<Rightarrow> aggregate \<Rightarrow> aggregate" where
  "apply_call (CompGet c) a = add_child a"
| "apply_call (CompFail c r) a = fail r a"
| "apply_call (NewAioRequest c) a = add_child a"
| "apply_call (JournalAppendEvent c ev requests sy) a = add_child a"
| "apply_call (CompFinishAddingRequests c) a = finish_adding_requests a"
| "apply_call (CompPut c) a = put_reference a"
| "apply_call k a = a"

fun replay :: "call list \<Rightarrow> aggregate \<Rightarrow> aggregate" where
  "replay [] a = a"
| "replay (k # ks) a = replay ks (apply_call k a)"

text \<open>
  The children a sequence of calls leaves to complete later: one per object request
  sent, one per cache write, and for a journal append its safe callback and the object
  requests handed to it. \<open>answer\<close> is the result each of them completes with.
\<close>

fun pending_children :: "call list \<Rightarrow> call list" where
  "pending_children [] = []"
| "pending_children (ObjectSend r # ks) = ObjectSend r # pending_children ks"
| "pending_children (WriteToCache oid bl len off fl # ks) =
     WriteToCache oid bl len off fl # pending_children ks"
| "pending_children (JournalAppendEvent c ev requests sy # ks) =
     JournalAppendEvent c ev requests sy # map ObjectSend requests @ pending_children ks"
| "pending_children (k # ks) = pending_children ks"

fun complete_children :: "int list \<Rightarrow> aggregate \<Rightarrow> aggregate" where
  "complete_children [] a = a"
| "complete_children (r # rs) a = complete_children rs (complete_child r a)"

definition settle :: "(call \<Rightarrow> int) \<Rightarrow> call list \<Rightarrow> aggregate" where
  "settle answer calls =
     complete_children (map answer (pending_children calls)) (replay calls new_aggregate)"

text \<open>
  Modelled from the spec: \<open>clip_io\<close> is not among the sources. A range is clipped
  against the volume length, the length being clipped to
  \<open>max(0, volume_length - offset)\<close>.
\<close>

definition clip_io_spec :: "u64 \<Rightarrow> image_ctx \<Rightarrow> u64 \<Rightarrow> u64 \<Rightarrow> int \<times> u64" where
  "clip_io_spec volume_length ctx off len =
     (0, min len (if volume_length \<le> off then 0 else volume_length - off))"

section \<open>Notions the properties are stated with\<close>

text \<open>
  The per-object requests a write or a discard constructs for a list of extents (those
  for which \<open>send_object_request\<close> returns a request), and the extents
  \<open>send_request\<close> maps the clipped range to.
\<close>

definition constructed ::
  "image_ctx \<Rightarrow> aio_image_request \<Rightarrow> snap_context \<Rightarrow> object_extent list \<Rightarrow> object_request list" where
  "constructed ctx req sc object_extents =
     List.map_filter (\<lambda>oe. snd (send_object_request ctx req oe sc)) object_extents"

definition clipped_extents :: "collaborators \<Rightarrow> image_ctx \<Rightarrow> u64 \<Rightarrow> u64 \<Rightarrow> object_extent list" where
  "clipped_extents ext ctx off clip_len =
     (if clip_len > 0 then file_to_extents ext ctx off clip_len else [])"

text \<open>
  An interior extent neither covers its whole object nor reaches the object's end: the
  last branch of \<open>AioImageDiscard::send_object_request\<close>.
\<close>

definition interior :: "image_ctx \<Rightarrow> object_extent \<Rightarrow> bool" where
  "interior ctx oe =
     (oe_length oe \<noteq> fl_object_size ctx \<and> oe_offset oe + oe_length oe \<noteq> fl_object_size ctx)"

text \<open>
  An image at its head revision, writable, without cache or journal, whose watcher
  reports the lock as unsupported or owned.
\<close>

definition plain_image :: "image_ctx \<Rightarrow> bool" where
  "plain_image ctx =
     (snap_id ctx = CEPH_NOSNAP \<and> \<not> read_only ctx \<and> \<not> object_cacher ctx \<and> \<not> journal ctx \<and>
      (case image_watcher ctx of
         None \<Rightarrow> False
       | Some iw \<Rightarrow> \<not> is_lock_supported iw \<or> is_lock_owner iw))"

text \<open>
  The calls the watcher has received (none when there is no watcher), and the relation
  between its flag and the counter of queued writes.
\<close>

definition watcher_log :: "wq \<Rightarrow> watcher_call list" where
  "watcher_log s = (case image_watcher (m_image_ctx s) of None \<Rightarrow> [] | Some iw \<Rightarrow> watcher_calls iw)"

definition flag_matches_count :: "wq \<Rightarrow> bool" where
  "flag_matches_count s =
     (case image_watcher (m_image_ctx s) of
        None \<Rightarrow> True
      | Some iw \<Rightarrow> (m_queued_writes s = 0) = (\<not> aio_ops_pending iw))"

text \<open>
  The two outcomes of a submission. A request that ran inline was sent by the
  submitting call itself and has left the queue and its counter as they were; a request
  that was queued is the new last item, and nothing was sent. The distributed lock is
  owned or not required when there is no watcher, or the watcher reports the lock as
  unsupported or as owned.
\<close>

definition ran_inline :: "collaborators \<Rightarrow> aio_image_request \<Rightarrow> wq \<Rightarrow> wq \<Rightarrow> bool" where
  "ran_inline ext req s s' =
     (m_items s' = m_items s \<and> m_queued_writes s' = m_queued_writes s \<and>
      m_trace s' = m_trace s @ fst (send ext (m_image_ctx s) req))"

definition was_queued :: "aio_image_request \<Rightarrow> wq \<Rightarrow> wq \<Rightarrow> bool" where
  "was_queued req s s' = (m_items s' = m_items s @ [req] \<and> m_trace s' = m_trace s)"

definition lock_owned_or_not_required :: "wq \<Rightarrow> bool" where
  "lock_owned_or_not_required s =
     (case image_watcher (m_image_ctx s) of
        None \<Rightarrow> True
      | Some iw \<Rightarrow> \<not> is_lock_supported iw \<or> is_lock_owner iw)"

text \<open>
  A worker's turn: it dequeues and, when handed an item, processes it.
\<close>

definition worker_turn :: "collaborators \<Rightarrow> wq \<Rightarrow> wq" where
  "worker_turn ext s =
     (case void_dequeue ext s of
        (None, s') \<Rightarrow> s'
      | (Some req, s') \<Rightarrow> process ext req s')"

text \<open>
  The calls of a write that is clipped to 96 bytes and maps to one object extent, for
  which it sends the object write \<open>w\<close>.
\<close>

definition clipped_write_calls :: "completion \<Rightarrow> object_request \<Rightarrow> call list" where
  "clipped_write_calls c w =
     [CompGet c, CompInitTime c AIO_TYPE_WRITE, NewAioRequest c, ObjectSend w,
      PerfInc l_librbd_wr 1, PerfInc l_librbd_wr_bytes 96,
      CompFinishAddingRequests c, CompPut c]"

section \<open>Example configurations\<close>

text \<open>
  Configurations on which the properties are exercised: a watcher with a given lock
  state and nothing pending, an extent mapper for ranges inside the first object, the
  spec's clipping against a volume of 4096 bytes, and an image at its head revision
  with objects of 4 MiB, without cache or journal.
\<close>

definition example_watcher :: "bool \<Rightarrow> bool \<Rightarrow> image_watcher" where
  "example_watcher supported owner =
     \<lparr>is_lock_supported = supported, is_lock_owner = owner, aio_ops_pending = False,
      watcher_calls = []\<rparr>"

definition single_object_extents :: "image_ctx \<Rightarrow> u64 \<Rightarrow> u64 \<Rightarrow> object_extent list" where
  "single_object_extents ctx off len =
     [\<lparr>oe_oid = ''rbd_data.0'', oe_objectno = 0, oe_offset = off, oe_length = len,
       oe_buffer_extents = [(0, len)]\<rparr>]"

definition example_ext :: collaborators where
  "example_ext =
     \<lparr>clip_io = clip_io_spec 4096, file_to_extents = single_object_extents,
      ictx_check = (\<lambda>ctx. 0), flush_is_write_op = True\<rparr>"

definition example_ctx :: "image_watcher option \<Rightarrow> image_ctx" where
  "example_ctx w =
     \<lparr>snap_id = CEPH_NOSNAP, read_only = False, snapc = (0, []), fl_object_size = 4194304,
      object_cacher = False, journal = False, image_watcher = w,
      non_blocking_aio = False, rbd_skip_partial_discard = False\<rparr>"


definition journaled_ctx :: image_ctx where
  "journaled_ctx = (example_ctx (Some (example_watcher False False)))\<lparr>journal := True\<rparr>"

definition skipping_ctx :: image_ctx where
  "skipping_ctx = (example_ctx (Some (example_watcher True True)))\<lparr>rbd_skip_partial_discard := True\<rparr>"

definition locked_ctx :: image_ctx where
  "locked_ctx = example_ctx (Some (example_watcher True False))"

text \<open>
  Queues: new, with the lock owned; after one write was submitted without the lock, and
  after a second one; new and non-blocking, without the lock; non-blocking,
  holding a write and a read, and suspended; new and non-blocking, with the lock owned.
\<close>

definition idle_wq :: wq where
  "idle_wq = init_wq (example_ctx (Some (example_watcher True True)))"

definition one_write_queued :: wq where
  "one_write_queued = aio_write example_ext 1 0 8 (replicate 8 1) 0 (init_wq locked_ctx)"

definition two_writes_queued :: wq where
  "two_writes_queued = aio_write example_ext 2 8 8 (replicate 8 1) 0 one_write_queued"

definition non_blocking_wq :: wq where
  "non_blocking_wq = init_wq (locked_ctx\<lparr>non_blocking_aio := True\<rparr>)"

definition suspended_wq :: wq where
  "suspended_wq =
     (aio_read example_ext 2 0 8 0
        (aio_write example_ext 1 0 8 (replicate 8 1) 0 non_blocking_wq))\<lparr>m_writes_suspended := True\<rparr>"

definition idle_non_blocking_wq :: wq where
  "idle_non_blocking_wq =
     init_wq ((example_ctx (Some (example_watcher True True)))\<lparr>non_blocking_aio := True\<rparr>)"

text \<open>
  A write submitted to a new non-blocking queue with the lock owned, where a worker takes
  its turn between the two parts of \<open>queue\<close>.
\<close>

definition interleaved_enqueue :: wq where
  "interleaved_enqueue =
     queue_leave False
       (fst (queue_enter example_ext (AioImageWrite 7 0 8 (replicate 8 1) 0 False)
               idle_non_blocking_wq))
       (worker_turn example_ext
          (snd (queue_enter example_ext (AioImageWrite 7 0 8 (replicate 8 1) 0 False)
                  idle_non_blocking_wq)))"

section \<open>Auxiliary lemmas\<close>

lemma object_sends_append: "object_sends (xs @ ys) = object_sends xs @ object_sends ys"
  by (induction xs rule: object_sends.induct) simp_all

lemma journal_appends_append: "journal_appends (xs @ ys) = journal_appends xs @ journal_appends ys"
  by (induction xs rule: journal_appends.induct) simp_all

lemma cache_calls_append: "cache_calls (xs @ ys) = cache_calls xs @ cache_calls ys"
  by (induction xs rule: cache_calls.induct) simp_all

lemma made_no_effects:
  "send_object_request ctx req oe sc = (made, request) \<Longrightarrow>
   object_sends made = [] \<and> journal_appends made = [] \<and> cache_calls made = []"
  by (cases req) (auto split: if_splits)

lemma send_object_requests_stash:
  "send_object_requests ctx req sc True exts = (calls, requests) \<Longrightarrow>
   object_sends calls = [] \<and> journal_appends calls = [] \<and> cache_calls calls = [] \<and>
   requests = constructed ctx req sc exts"
proof (induction exts arbitrary: calls requests)
  case Nil
  then show ?case by (simp add: constructed_def)
next
  case (Cons p ps)
  obtain made request where m: "send_object_request ctx req p sc = (made, request)"
    by (cases "send_object_request ctx req p sc")
  obtain calls' requests' where r: "send_object_requests ctx req sc True ps = (calls', requests')"
    by (cases "send_object_requests ctx req sc True ps")
  from Cons.IH [OF r] made_no_effects [OF m] Cons.prems m r show ?case
    by (cases request)
       (auto simp: constructed_def map_filter_simps object_sends_append
                   journal_appends_append cache_calls_append)
qed

lemma send_object_requests_submit:
  "send_object_requests ctx req sc False exts = (calls, requests) \<Longrightarrow>
   object_sends calls = constructed ctx req sc exts \<and> journal_appends calls = [] \<and>
   cache_calls calls = [] \<and> requests = []"
proof (induction exts arbitrary: calls requests)
  case Nil
  then show ?case by (simp add: constructed_def)
next
  case (Cons p ps)
  obtain made request where m: "send_object_request ctx req p sc = (made, request)"
    by (cases "send_object_request ctx req p sc")
  obtain calls' requests' where r: "send_object_requests ctx req sc False ps = (calls', requests')"
    by (cases "send_object_requests ctx req sc False ps")
  from Cons.IH [OF r] made_no_effects [OF m] Cons.prems m r show ?case
    by (cases request)
       (auto simp: constructed_def map_filter_simps object_sends_append
                   journal_appends_append cache_calls_append)
qed


lemma send_cache_requests_quiet:
  "object_sends (send_cache_requests req exts) = [] \<and>
   journal_appends (send_cache_requests req exts) = []"
proof (cases req)
  case (AioImageWrite c off len buf op_flags sy)
  then show ?thesis by (induction exts) simp_all
qed simp_all

lemma update_stats_quiet:
  "object_sends (update_stats req n) = [] \<and> journal_appends (update_stats req n) = [] \<and>
   cache_calls (update_stats req n) = []"
  by (cases req) simp_all

lemma append_journal_event_quiet:
  "object_sends (append_journal_event req requests) = [] \<and>
   cache_calls (append_journal_event req requests) = []"
  by (cases req) simp_all

lemma write_send_request_proceeds:
  assumes "image_watcher ctx = Some iw" and "\<not> is_lock_supported iw \<or> is_lock_owner iw"
    and "snap_id ctx = CEPH_NOSNAP" and "\<not> read_only ctx"
    and "clip_io ext ctx off len = (r, clip_len)" and "0 \<le> r"
    and "send_object_requests ctx req (snapc ctx) (journal ctx)
           (clipped_extents ext ctx off clip_len) = (calls, requests)"
  shows "write_send_request ext ctx req off len =
           (CompInitTime (m_aio_comp req) (get_aio_type req) # calls
              @ (if journal ctx then append_journal_event req requests else [])
              @ (if object_cacher ctx
                 then send_cache_requests req (clipped_extents ext ctx off clip_len) else [])
              @ update_stats req clip_len
              @ [CompFinishAddingRequests (m_aio_comp req), CompPut (m_aio_comp req)],
            None)"
  using assms unfolding write_send_request_def clipped_extents_def by auto

lemma write_send_request_journaled:
  assumes "image_watcher ctx = Some iw" and "\<not> is_lock_supported iw \<or> is_lock_owner iw"
    and "snap_id ctx = CEPH_NOSNAP" and "\<not> read_only ctx"
    and "clip_io ext ctx off len = (r, clip_len)" and "0 \<le> r" and "journal ctx"
  shows "object_sends (fst (write_send_request ext ctx req off len)) = [] \<and>
         journal_appends (fst (write_send_request ext ctx req off len)) =
           journal_appends (append_journal_event req
             (constructed ctx req (snapc ctx) (clipped_extents ext ctx off clip_len)))"
proof -
  obtain calls requests where
    l: "send_object_requests ctx req (snapc ctx) (journal ctx)
          (clipped_extents ext ctx off clip_len) = (calls, requests)"
    by (cases "send_object_requests ctx req (snapc ctx) (journal ctx)
                 (clipped_extents ext ctx off clip_len)")
  with \<open>journal ctx\<close> have
    "send_object_requests ctx req (snapc ctx) True (clipped_extents ext ctx off clip_len) =
       (calls, requests)"
    by simp
  note st = send_object_requests_stash [OF this]
  show ?thesis
    using st \<open>journal ctx\<close>
    by (simp add: write_send_request_proceeds [OF assms(1-6) l] object_sends_append
          journal_appends_append send_cache_requests_quiet update_stats_quiet
          append_journal_event_quiet)
qed

lemma write_send_request_unjournaled:
  assumes "image_watcher ctx = Some iw" and "\<not> is_lock_supported iw \<or> is_lock_owner iw"
    and "snap_id ctx = CEPH_NOSNAP" and "\<not> read_only ctx"
    and "clip_io ext ctx off len = (r, clip_len)" and "0 \<le> r" and "\<not> journal ctx"
  shows "object_sends (fst (write_send_request ext ctx req off len)) =
           constructed ctx req (snapc ctx) (clipped_extents ext ctx off clip_len) \<and>
         journal_appends (fst (write_send_request ext ctx req off len)) = []"
proof -
  obtain calls requests where
    l: "send_object_requests ctx req (snapc ctx) (journal ctx)
          (clipped_extents ext ctx off clip_len) = (calls, requests)"
    by (cases "send_object_requests ctx req (snapc ctx) (journal ctx)
                 (clipped_extents ext ctx off clip_len)")
  with \<open>\<not> journal ctx\<close> have
    "send_object_requests ctx req (snapc ctx) False (clipped_extents ext ctx off clip_len) =
       (calls, requests)"
    by simp
  note st = send_object_requests_submit [OF this]
  show ?thesis
    using st \<open>\<not> journal ctx\<close>
    by (simp add: write_send_request_proceeds [OF assms(1-6) l] object_sends_append
          journal_appends_append send_cache_requests_quiet update_stats_quiet
          append_journal_event_quiet)
qed

lemma write_send_request_no_sends_when_journaling:
  "journal ctx \<Longrightarrow> object_sends (fst (write_send_request ext ctx req off len)) = []"
proof -
  assume j: "journal ctx"
  show ?thesis
  proof (cases "\<exists>iw. image_watcher ctx = Some iw \<and> (\<not> is_lock_supported iw \<or> is_lock_owner iw)
                  \<and> snap_id ctx = CEPH_NOSNAP \<and> \<not> read_only ctx
                  \<and> 0 \<le> fst (clip_io ext ctx off len)")
    case True
    then obtain iw where a: "image_watcher ctx = Some iw"
      "\<not> is_lock_supported iw \<or> is_lock_owner iw" "snap_id ctx = CEPH_NOSNAP"
      "\<not> read_only ctx" "0 \<le> fst (clip_io ext ctx off len)" by blast
    obtain r clip_len where c: "clip_io ext ctx off len = (r, clip_len)"
      by (cases "clip_io ext ctx off len")
    with a have "0 \<le> r" by simp
    from write_send_request_journaled [OF a(1-4) c this j] show ?thesis by simp
  next
    case False
    then show ?thesis
      unfolding write_send_request_def
      by (auto split: option.splits prod.splits)
  qed
qed

lemma write_send_request_no_appends_without_journal:
  "\<not> journal ctx \<Longrightarrow> journal_appends (fst (write_send_request ext ctx req off len)) = []"
proof -
  assume j: "\<not> journal ctx"
  show ?thesis
  proof (cases "\<exists>iw. image_watcher ctx = Some iw \<and> (\<not> is_lock_supported iw \<or> is_lock_owner iw)
                  \<and> snap_id ctx = CEPH_NOSNAP \<and> \<not> read_only ctx
                  \<and> 0 \<le> fst (clip_io ext ctx off len)")
    case True
    then obtain iw where a: "image_watcher ctx = Some iw"
      "\<not> is_lock_supported iw \<or> is_lock_owner iw" "snap_id ctx = CEPH_NOSNAP"
      "\<not> read_only ctx" "0 \<le> fst (clip_io ext ctx off len)" by blast
    obtain r clip_len where c: "clip_io ext ctx off len = (r, clip_len)"
      by (cases "clip_io ext ctx off len")
    with a have "0 \<le> r" by simp
    from write_send_request_unjournaled [OF a(1-4) c this j] show ?thesis by simp
  next
    case False
    then show ?thesis
      unfolding write_send_request_def
      by (auto split: option.splits prod.splits)
  qed
qed


lemma constructed_write:
  "constructed ctx (AioImageWrite c off len buf op_flags sy) sc exts =
     (if object_cacher ctx then []
      else map (\<lambda>oe. AioObjectWrite (oe_oid oe) (oe_objectno oe) (oe_offset oe)
                        (assemble_extent buf oe) sc op_flags) exts)"
proof (cases "object_cacher ctx")
  case True
  then show ?thesis by (induction exts) (simp_all add: constructed_def map_filter_simps)
next
  case False
  then show ?thesis by (induction exts) (simp_all add: constructed_def map_filter_simps)
qed


lemma replay_append: "replay (xs @ ys) a = replay ys (replay xs a)"
  by (induction xs arbitrary: a) simp_all

lemma send_object_requests_all_skipped:
  assumes "rbd_skip_partial_discard ctx" and "\<forall>oe \<in> set exts. interior ctx oe"
  shows "send_object_requests ctx (AioImageDiscard c off len sy) sc stash exts =
           (concat (map (\<lambda>oe. [NewAioRequest c, DeleteContext c]) exts), [])"
  using assms by (induction exts) (simp_all add: interior_def)

lemma pending_children_append:
  "pending_children (xs @ ys) = pending_children xs @ pending_children ys"
  by (induction xs rule: pending_children.induct) simp_all

lemma pending_children_skipped:
  "pending_children (concat (map (\<lambda>oe. [NewAioRequest c, DeleteContext c]) exts)) = []"
  by (induction exts) simp_all

lemma object_sends_skipped:
  "object_sends (concat (map (\<lambda>oe. [NewAioRequest c, DeleteContext c]) exts)) = []"
  by (induction exts) simp_all

lemma skipped_discard_send:
  assumes "image_watcher ctx = Some iw" and "\<not> is_lock_supported iw \<or> is_lock_owner iw"
    and "snap_id ctx = CEPH_NOSNAP" and "\<not> read_only ctx" and "0 \<le> ictx_check ext ctx"
    and "clip_io ext ctx off len = (r, clip_len)" and "0 \<le> r"
    and "rbd_skip_partial_discard ctx"
    and "\<forall>oe \<in> set (clipped_extents ext ctx off clip_len). interior ctx oe"
  shows "send ext ctx (AioImageDiscard c off len sy) =
           (CompGet c # CompInitTime c AIO_TYPE_DISCARD
              # concat (map (\<lambda>oe. [NewAioRequest c, DeleteContext c])
                            (clipped_extents ext ctx off clip_len))
              @ (if journal ctx then [JournalAppendEvent c (AioDiscardEvent off len) [] sy] else [])
              @ (if object_cacher ctx then [CacheDiscardSet (clipped_extents ext ctx off clip_len)]
                 else [])
              @ [PerfInc l_librbd_discard 1, PerfInc l_librbd_discard_bytes clip_len,
                 CompFinishAddingRequests c, CompPut c],
            None)"
  using write_send_request_proceeds [OF assms(1-4) assms(6,7)
          send_object_requests_all_skipped [OF assms(8,9)], of c off len sy]
        assms(5)
  by (simp add: send_def)

lemma send_object_requests_submit_calls:
  "fst (send_object_requests ctx req sc False exts) =
     concat (map (\<lambda>oe. NewAioRequest (m_aio_comp req) # fst (send_object_request ctx req oe sc)
                         @ (case snd (send_object_request ctx req oe sc) of
                              None \<Rightarrow> [] | Some r \<Rightarrow> [ObjectSend r]))
                 exts)"
  by (induction exts) (auto split: prod.splits option.splits)

lemma queue_flag_matches_count:
  "flag_matches_count s \<Longrightarrow> flag_matches_count (queue ext req lock_required s)"
  by (auto simp: flag_matches_count_def queue_def Let_def set_watcher_def
        flag_aio_ops_pending_def request_lock_def split: option.splits)

lemma static_send_flag_matches_count:
  "flag_matches_count s \<Longrightarrow> flag_matches_count (static_send ext req s)"
  by (auto simp: flag_matches_count_def static_send_def split: option.splits prod.splits)

lemma process_flag_matches_count:
  "flag_matches_count s \<Longrightarrow> flag_matches_count (process ext req s)"
  by (auto simp: flag_matches_count_def process_def set_watcher_def clear_aio_ops_pending_def
        split: option.splits prod.splits)

lemma void_dequeue_flag_matches_count:
  "flag_matches_count s \<Longrightarrow> void_dequeue ext s = (item, s') \<Longrightarrow> flag_matches_count s'"
  by (auto simp: flag_matches_count_def void_dequeue_def split: option.splits list.splits if_splits)

lemma step_flag_matches_count:
  "step ext cfg a cfg' \<Longrightarrow> flag_matches_count (fst cfg) \<Longrightarrow> flag_matches_count (fst cfg')"
proof (induction rule: step.induct)
  case (step_read s ext fl c off len op_flags)
  then show ?case
    by (simp add: aio_read_def queue_flag_matches_count static_send_flag_matches_count)
next
  case (step_write s ext fl c off len buf op_flags)
  then show ?case
    by (simp add: aio_write_def queue_flag_matches_count static_send_flag_matches_count)
next
  case (step_discard s ext fl c off len)
  then show ?case
    by (simp add: aio_discard_def queue_flag_matches_count static_send_flag_matches_count)
next
  case (step_flush s ext fl c)
  then show ?case
    by (simp add: aio_flush_def queue_flag_matches_count static_send_flag_matches_count)
next
  case (step_dequeue_null s ext s' fl)
  then show ?case using void_dequeue_flag_matches_count by fastforce
next
  case (step_dequeue_item s ext req s' fl)
  then show ?case using void_dequeue_flag_matches_count by fastforce
next
  case (step_process s req fl ext)
  then show ?case by (simp add: process_flag_matches_count)
next
  case (step_suspend s ext fl)
  then show ?case by (auto simp: flag_matches_count_def split: option.splits)
next
  case (step_resume s ext fl)
  then show ?case by (auto simp: flag_matches_count_def resume_writes_def split: option.splits)
next
  case (step_lock_state s iw ext fl supported owner)
  then show ?case by (auto simp: flag_matches_count_def set_watcher_def split: option.splits)
qed

lemma run_flag_matches_count:
  "run ext cfg acts cfg' \<Longrightarrow> flag_matches_count (fst cfg) \<Longrightarrow> flag_matches_count (fst cfg')"
  by (induction rule: run.induct) (auto dest: step_flag_matches_count)

lemma queue_watcher_log:
  "image_watcher (m_image_ctx s) = Some iw \<Longrightarrow>
   watcher_log (queue ext req lock_required s) =
     watcher_log s @ (if is_write_op ext req \<and> m_queued_writes s = 0
                      then FlagAioOpsPending # (if lock_required then [RequestLock] else [])
                      else [])"
  by (simp add: watcher_log_def queue_def Let_def set_watcher_def flag_aio_ops_pending_def
        request_lock_def)

lemma process_watcher_log:
  "image_watcher (m_image_ctx s) = Some iw \<Longrightarrow>
   watcher_log (process ext req s) =
     watcher_log s @ (if snd (send ext (m_image_ctx s) req) = None \<and> is_write_op ext req \<and>
                         m_queued_writes s = 1
                      then [ClearAioOpsPending] else [])"
  by (auto simp: watcher_log_def process_def set_watcher_def clear_aio_ops_pending_def
        split: option.splits prod.splits)

lemma one_write_queued_eq:
  "one_write_queued =
     \<lparr>m_image_ctx = example_ctx (Some \<lparr>is_lock_supported = True, is_lock_owner = False,
                                        aio_ops_pending = True,
                                        watcher_calls = [FlagAioOpsPending, RequestLock]\<rparr>),
      m_items = [AioImageWrite 1 0 8 (replicate 8 1) 0 False], m_queued_writes = 1,
      m_in_progress_writes = 0, m_writes_suspended = False, m_trace = [], m_fault = None\<rparr>"
  by (simp add: one_write_queued_def aio_write_def init_wq_def locked_ctx_def example_ctx_def
        example_watcher_def is_lock_required_def queue_def Let_def set_watcher_def
        flag_aio_ops_pending_def request_lock_def)

lemma queue_was_queued: "was_queued req s (queue ext req lock_required s)"
  by (auto simp: was_queued_def queue_def Let_def set_watcher_def split: option.splits)

lemma queue_not_inline: "\<not> ran_inline ext req s (queue ext req lock_required s)"
  by (auto simp: ran_inline_def queue_def Let_def set_watcher_def split: option.splits)

lemma static_send_ran_inline: "ran_inline ext req s (static_send ext req s)"
  by (auto simp: ran_inline_def static_send_def split: prod.splits)

lemma static_send_not_queued: "\<not> was_queued req s (static_send ext req s)"
  by (auto simp: was_queued_def static_send_def split: prod.splits)

lemma is_lock_required_iff: "is_lock_required s = (\<not> lock_owned_or_not_required s)"
  by (simp add: is_lock_required_def lock_owned_or_not_required_def split: option.splits)

lemma queue_read_keeps_watcher:
  "m_image_ctx (queue ext (AioImageRead c exts op_flags) lock_required s) = m_image_ctx s"
  by (simp add: queue_def Let_def)

lemma static_send_keeps_ctx: "m_image_ctx (static_send ext req s) = m_image_ctx s"
  by (simp add: static_send_def split: prod.splits)

lemma queue_keeps_suspension:
  "m_writes_suspended (queue ext req lock_required s) = m_writes_suspended s \<and>
   m_in_progress_writes (queue ext req lock_required s) = m_in_progress_writes s"
  by (auto simp: queue_def Let_def set_watcher_def split: option.splits)

lemma static_send_keeps_suspension:
  "m_writes_suspended (static_send ext req s) = m_writes_suspended s \<and>
   m_in_progress_writes (static_send ext req s) = m_in_progress_writes s"
  by (simp add: static_send_def split: prod.splits)

lemma process_keeps_suspension:
  "m_writes_suspended (process ext req s) = m_writes_suspended s \<and>
   m_in_progress_writes (process ext req s) \<le> m_in_progress_writes s"
  by (auto simp: process_def set_watcher_def split: prod.splits option.splits)

lemma void_dequeue_suspended:
  "m_writes_suspended s \<Longrightarrow> void_dequeue ext s = (item, s') \<Longrightarrow>
   m_writes_suspended s' \<and> m_in_progress_writes s' = m_in_progress_writes s \<and>
   (\<forall>req. item = Some req \<longrightarrow> \<not> is_write_op ext req)"
  by (auto simp: void_dequeue_def split: list.splits if_splits)

lemma step_while_suspended:
  "step ext cfg a cfg' \<Longrightarrow> m_writes_suspended (fst cfg) \<Longrightarrow> a \<noteq> ResumeWrites \<Longrightarrow>
   m_writes_suspended (fst cfg') \<and>
   m_in_progress_writes (fst cfg') \<le> m_in_progress_writes (fst cfg) \<and>
   (\<forall>req. a = Dequeue (Some req) \<longrightarrow> \<not> is_write_op ext req)"
proof (induction rule: step.induct)
  case (step_read s ext fl c off len op_flags)
  then show ?case
    by (simp add: aio_read_def queue_keeps_suspension static_send_keeps_suspension)
next
  case (step_write s ext fl c off len buf op_flags)
  then show ?case
    by (simp add: aio_write_def queue_keeps_suspension static_send_keeps_suspension)
next
  case (step_discard s ext fl c off len)
  then show ?case
    by (simp add: aio_discard_def queue_keeps_suspension static_send_keeps_suspension)
next
  case (step_flush s ext fl c)
  then show ?case
    by (simp add: aio_flush_def queue_keeps_suspension static_send_keeps_suspension)
next
  case (step_dequeue_null s ext s' fl)
  then show ?case using void_dequeue_suspended [of s ext None s'] by simp
next
  case (step_dequeue_item s ext req s' fl)
  then show ?case using void_dequeue_suspended [of s ext "Some req" s'] by simp
next
  case (step_process s req fl ext)
  then show ?case by (simp add: process_keeps_suspension)
next
  case (step_suspend s ext fl)
  then show ?case by simp
next
  case (step_resume s ext fl)
  then show ?case by simp
next
  case (step_lock_state s iw ext fl supported owner)
  then show ?case by (simp add: set_watcher_def)
qed

lemma run_while_suspended:
  "run ext cfg acts cfg' \<Longrightarrow> m_writes_suspended (fst cfg) \<Longrightarrow> ResumeWrites \<notin> set acts \<Longrightarrow>
   m_writes_suspended (fst cfg') \<and>
   m_in_progress_writes (fst cfg') \<le> m_in_progress_writes (fst cfg) \<and>
   (\<forall>req. Dequeue (Some req) \<in> set acts \<longrightarrow> \<not> is_write_op ext req)"
proof (induction rule: run.induct)
  case (run_nil ext cfg)
  then show ?case by simp
next
  case (run_snoc ext cfg acts cfg' a cfg'')
  then have ih: "m_writes_suspended (fst cfg')"
    "m_in_progress_writes (fst cfg') \<le> m_in_progress_writes (fst cfg)"
    "\<forall>req. Dequeue (Some req) \<in> set acts \<longrightarrow> \<not> is_write_op ext req"
    by simp_all
  from run_snoc.prems have "a \<noteq> ResumeWrites" by auto
  from step_while_suspended [OF run_snoc.hyps(2) ih(1) this] ih show ?case by auto
qed

lemma wait_in_progress_writes_returns:
  "wait_in_progress_writes others s = Some s' \<Longrightarrow> m_in_progress_writes s' = 0"
  by (induction others arbitrary: s) (auto split: if_splits)

lemma wait_in_progress_writes_suspended:
  "wait_in_progress_writes others s = Some s' \<Longrightarrow> m_writes_suspended s \<Longrightarrow>
   \<forall>other \<in> set others. \<forall>t. m_writes_suspended t \<longrightarrow> m_writes_suspended (other t) \<Longrightarrow>
   m_writes_suspended s'"
  by (induction others arbitrary: s) (auto split: if_splits)

lemma suspended_wq_eq:
  "suspended_wq =
     \<lparr>m_image_ctx = (example_ctx (Some \<lparr>is_lock_supported = True, is_lock_owner = False,
                                        aio_ops_pending = True,
                                        watcher_calls = [FlagAioOpsPending, RequestLock]\<rparr>))
                      \<lparr>non_blocking_aio := True\<rparr>,
      m_items = [AioImageWrite 1 0 8 (replicate 8 1) 0 False, AioImageRead 2 [(0, 8)] 0],
      m_queued_writes = 1, m_in_progress_writes = 0, m_writes_suspended = True, m_trace = [],
      m_fault = None\<rparr>"
  by (simp add: suspended_wq_def non_blocking_wq_def aio_write_def aio_read_def init_wq_def
        locked_ctx_def example_ctx_def example_watcher_def is_lock_required_def queue_def Let_def
        set_watcher_def flag_aio_ops_pending_def request_lock_def)

lemma clip_io_spec_scenario: "clip_io_spec 4096 ctx 4000 200 = (0, 96) \<and> clip_io_spec 4096 ctx 4000 96 = (0, 96)"
  by (simp add: clip_io_spec_def)

lemma queue_count:
  "m_queued_writes (queue ext req lock_required s) =
     (if is_write_op ext req then m_queued_writes s + 1 else m_queued_writes s)"
  by (auto simp: queue_def Let_def set_watcher_def split: option.splits)

lemma process_count:
  "snd (send ext (m_image_ctx s) req) = None \<and> is_write_op ext req \<and> 0 < m_queued_writes s \<longrightarrow>
   m_queued_writes (process ext req s) = m_queued_writes s - 1"
  by (auto simp: process_def set_watcher_def split: option.splits prod.splits)

lemma plain_write_send:
  assumes "plain_image ctx" and "clip_io ext = clip_io_spec 4096" and "0 \<le> ictx_check ext ctx"
    and "file_to_extents ext ctx 4000 96 = [oe]" and "oe_buffer_extents oe = [(0, 96)]"
  shows "send ext ctx (AioImageWrite c 4000 96 buf op_flags sy) =
           ([CompGet c, CompInitTime c AIO_TYPE_WRITE, NewAioRequest c,
             ObjectSend (AioObjectWrite (oe_oid oe) (oe_objectno oe) (oe_offset oe) (take 96 buf)
                           (snapc ctx) op_flags),
             PerfInc l_librbd_wr 1, PerfInc l_librbd_wr_bytes 96,
             CompFinishAddingRequests c, CompPut c], None)"
proof -
  let ?w = "AioImageWrite c 4000 96 buf op_flags sy"
  let ?o = "AioObjectWrite (oe_oid oe) (oe_objectno oe) (oe_offset oe) (take 96 buf)
              (snapc ctx) op_flags"
  from assms(1) obtain iw where w: "image_watcher ctx = Some iw"
    "\<not> is_lock_supported iw \<or> is_lock_owner iw" "snap_id ctx = CEPH_NOSNAP" "\<not> read_only ctx"
    "\<not> object_cacher ctx" "\<not> journal ctx"
    by (auto simp: plain_image_def split: option.splits)
  have c: "clip_io ext ctx 4000 96 = (0, 96)"
    by (simp add: assms(2) clip_io_spec_scenario)
  have a: "assemble_extent buf oe = take 96 buf"
    by (simp add: assemble_extent_def assms(5))
  have l: "send_object_requests ctx ?w (snapc ctx) (journal ctx)
             (clipped_extents ext ctx 4000 96) = ([NewAioRequest c, ObjectSend ?o], [])"
    using w by (simp add: clipped_extents_def assms(4) a)
  show ?thesis
    using write_send_request_proceeds [OF w(1-4) c _ l] w assms(3)
    by (simp add: send_def)
qed

lemma queued_plain_write_runs:
  assumes "plain_image (m_image_ctx s)" and "m_items s = []" and "\<not> m_writes_suspended s"
    and "send ext (m_image_ctx (queue ext (AioImageWrite c off len buf op_flags sy) False s))
           (AioImageWrite c off len buf op_flags sy) = (calls, None)"
  shows "m_trace (worker_turn ext (queue ext (AioImageWrite c off len buf op_flags sy) False s)) =
           m_trace s @ calls"
proof -
  let ?w = "AioImageWrite c off len buf op_flags sy"
  let ?q = "queue ext ?w False s"
  from assms(1) obtain iw where w: "image_watcher (m_image_ctx s) = Some iw"
    by (auto simp: plain_image_def split: option.splits)
  have q: "m_items ?q = [?w]" "\<not> m_writes_suspended ?q" "m_trace ?q = m_trace s"
    using assms(2,3) w by (simp_all add: queue_def Let_def set_watcher_def)
  have d: "void_dequeue ext ?q =
             (Some ?w, ?q\<lparr>m_in_progress_writes := m_in_progress_writes ?q + 1, m_items := []\<rparr>)"
    using q by (simp add: void_dequeue_def)
  have "m_trace (process ext ?w
                   (?q\<lparr>m_in_progress_writes := m_in_progress_writes ?q + 1, m_items := []\<rparr>)) =
          m_trace ?q @ calls"
    using assms(4) by (auto simp: process_def set_watcher_def split: option.splits)
  then show ?thesis by (simp add: worker_turn_def d q)
qed

lemma queue_write_keeps_plain_image:
  "plain_image (m_image_ctx s) \<Longrightarrow> plain_image (m_image_ctx (queue ext req lock_required s))"
  by (auto simp: plain_image_def queue_def Let_def set_watcher_def flag_aio_ops_pending_def
        request_lock_def split: option.splits)

lemma queue_keeps_snapc:
  "snapc (m_image_ctx (queue ext req lock_required s)) = snapc (m_image_ctx s)"
  by (auto simp: queue_def Let_def set_watcher_def split: option.splits)

lemma queue_in_two_parts:
  "queue ext req lock_required s =
     queue_leave lock_required (fst (queue_enter ext req s)) (snd (queue_enter ext req s))"
  by (simp add: queue_def queue_enter_def queue_leave_def Let_def)

lemma replay_skipped_children:
  "replay (concat (map (\<lambda>oe. [NewAioRequest c, DeleteContext c]) exts)) a =
     a\<lparr>outstanding := outstanding a + length exts\<rparr>"
  by (induction exts arbitrary: a) (simp_all add: add_child_def)

lemma wq_discard_converts_to_int:
  "clip_io ext (m_image_ctx s) off len = (r, clip_len) \<Longrightarrow> 0 \<le> r \<Longrightarrow> 0 \<le> waited \<Longrightarrow>
   fst (wq_discard ext c waited off len s) = sint (ucast clip_len :: 32 word)"
  by (simp add: wq_discard_def)

section \<open>Properties\<close>

subsection \<open>Lock acquisition on enqueue\<close>

text \<open>
  Claim C1, as the code has it. A write or a discard submitted while the distributed
  lock is supported and not owned is appended to the queue, and the watcher receives
  \<open>flag_aio_ops_pending()\<close> followed by \<open>request_lock()\<close> exactly when no write was
  queued before. When the counter of queued writes is not zero, the enqueue does not
  call the watcher at all.
\<close>

theorem lock_requested_with_first_queued_write:
  "image_watcher (m_image_ctx s) = Some iw \<and> is_lock_supported iw \<and> \<not> is_lock_owner iw \<longrightarrow>
     m_items (aio_write ext c off len buf op_flags s) =
       m_items s @ [AioImageWrite c off len buf op_flags False] \<and>
     watcher_log (aio_write ext c off len buf op_flags s) =
       watcher_log s @ (if m_queued_writes s = 0 then [FlagAioOpsPending, RequestLock] else []) \<and>
     m_items (aio_discard ext c off len s) = m_items s @ [AioImageDiscard c off len False] \<and>
     watcher_log (aio_discard ext c off len s) =
       watcher_log s @ (if m_queued_writes s = 0 then [FlagAioOpsPending, RequestLock] else [])"
  by (simp add: aio_write_def aio_discard_def is_lock_required_def queue_watcher_log)
     (simp add: queue_def Let_def set_watcher_def)

text \<open>
  The first write submitted to a new queue without the lock reaches the watcher with
  both calls.
\<close>

theorem lock_requested_with_first_queued_write_witness:
  "watcher_log one_write_queued = [FlagAioOpsPending, RequestLock] \<and>
   m_items one_write_queued = [AioImageWrite 1 0 8 (replicate 8 1) 0 False]"
proof -
  have w: "image_watcher (m_image_ctx (init_wq locked_ctx)) = Some (example_watcher True False)"
    by (simp add: init_wq_def locked_ctx_def example_ctx_def)
  have l: "watcher_log (init_wq locked_ctx) = []" "m_queued_writes (init_wq locked_ctx) = 0"
    "m_items (init_wq locked_ctx) = []" "is_lock_supported (example_watcher True False)"
    "\<not> is_lock_owner (example_watcher True False)"
    by (simp_all add: watcher_log_def w example_watcher_def) (simp_all add: init_wq_def)
  from lock_requested_with_first_queued_write
         [of "init_wq locked_ctx" "example_watcher True False" example_ext 1 0 8 "replicate 8 1" 0]
       w l
  show ?thesis by (simp add: one_write_queued_def)
qed

text \<open>
  The claim as stated, with \<open>request_lock()\<close> on every such enqueue, fails: a second
  write queued while the lock is still required leaves the watcher's log as it was.
\<close>

theorem second_queued_write_requests_no_lock:
  "is_lock_required one_write_queued \<and>
   m_items two_writes_queued =
     m_items one_write_queued @ [AioImageWrite 2 8 8 (replicate 8 1) 0 False] \<and>
   watcher_log two_writes_queued = watcher_log one_write_queued"
  by (simp add: two_writes_queued_def one_write_queued_eq aio_write_def is_lock_required_def
        example_ctx_def queue_def Let_def watcher_log_def)

subsection \<open>The pending flag and the counter of queued writes\<close>

text \<open>
  Claim C2. The claim has \<open>queued_writes\<close> zero exactly when the "async ops pending"
  flag is cleared, in every reachable state, the flag being raised on the transition
  from 0 to 1 and cleared on the return to 0. The code does not keep to it. \<open>process\<close>
  clears the flag under \<open>m_lock\<close>; \<open>queue\<close> raises it after it has released the mutex
  and handed the request to the thread pool. When a worker dequeues and processes the
  first write between the two parts of \<open>queue\<close>, the counter is back at zero and the
  flag cleared before \<open>queue\<close> raises it: the queue comes to rest with no write queued
  or in progress, no fault, and the flag raised, the watcher having been told to clear
  first and to flag afterwards. The two parts taken together are the submission itself.
\<close>

theorem pending_flag_raised_with_no_write_queued:
  "aio_write example_ext 7 0 8 (replicate 8 1) 0 idle_non_blocking_wq =
     queue_leave False
       (fst (queue_enter example_ext (AioImageWrite 7 0 8 (replicate 8 1) 0 False)
               idle_non_blocking_wq))
       (snd (queue_enter example_ext (AioImageWrite 7 0 8 (replicate 8 1) 0 False)
               idle_non_blocking_wq)) \<and>
   m_queued_writes interleaved_enqueue = 0 \<and>
   m_in_progress_writes interleaved_enqueue = 0 \<and>
   m_items interleaved_enqueue = [] \<and>
   m_fault interleaved_enqueue = None \<and>
   map_option aio_ops_pending (image_watcher (m_image_ctx interleaved_enqueue)) = Some True \<and>
   watcher_log interleaved_enqueue = [ClearAioOpsPending, FlagAioOpsPending]"
proof -
  let ?w = "AioImageWrite 7 0 8 (replicate 8 1) 0 False"
  have n: "non_blocking_aio (m_image_ctx idle_non_blocking_wq)"
    "\<not> is_lock_required idle_non_blocking_wq"
    by (simp_all add: idle_non_blocking_wq_def init_wq_def example_ctx_def example_watcher_def
          is_lock_required_def)
  have a: "aio_write example_ext 7 0 8 (replicate 8 1) 0 idle_non_blocking_wq =
             queue_leave False (fst (queue_enter example_ext ?w idle_non_blocking_wq))
               (snd (queue_enter example_ext ?w idle_non_blocking_wq))"
    using n by (simp add: aio_write_def queue_in_two_parts)
  have e: "queue_enter example_ext ?w idle_non_blocking_wq =
             (True, idle_non_blocking_wq\<lparr>m_queued_writes := Suc 0, m_items := [?w]\<rparr>)"
    by (simp add: queue_enter_def idle_non_blocking_wq_def init_wq_def)
  let ?ctx = "(example_ctx (Some (example_watcher True True)))\<lparr>non_blocking_aio := True\<rparr>"
  let ?calls = "[CompGet 7, CompInitTime 7 AIO_TYPE_WRITE, NewAioRequest 7,
                 ObjectSend (AioObjectWrite ''rbd_data.0'' 0 0 (replicate 8 1) (0, []) 0),
                 PerfInc l_librbd_wr 1, PerfInc l_librbd_wr_bytes 8,
                 CompFinishAddingRequests 7, CompPut 7]"
  have s: "send example_ext ?ctx ?w = (?calls, None)"
    by (simp add: send_def write_send_request_def example_ctx_def example_watcher_def
          example_ext_def clip_io_spec_def single_object_extents_def assemble_extent_def)
  have w: "image_watcher ?ctx = Some (example_watcher True True)"
    by (simp add: example_ctx_def)
  have t: "worker_turn example_ext (idle_non_blocking_wq\<lparr>m_queued_writes := Suc 0, m_items := [?w]\<rparr>) =
             set_watcher (clear_aio_ops_pending (example_watcher True True))
               (idle_non_blocking_wq\<lparr>m_trace := ?calls\<rparr>)"
    by (simp add: worker_turn_def void_dequeue_def process_def idle_non_blocking_wq_def
          init_wq_def s w)
  have i: "interleaved_enqueue =
             queue_leave False True
               (set_watcher (clear_aio_ops_pending (example_watcher True True))
                  (idle_non_blocking_wq\<lparr>m_trace := ?calls\<rparr>))"
    by (simp add: interleaved_enqueue_def e t)
  have r: "m_queued_writes interleaved_enqueue = 0 \<and>
           m_in_progress_writes interleaved_enqueue = 0 \<and>
           m_items interleaved_enqueue = [] \<and>
           m_fault interleaved_enqueue = None \<and>
           map_option aio_ops_pending (image_watcher (m_image_ctx interleaved_enqueue)) = Some True \<and>
           watcher_log interleaved_enqueue = [ClearAioOpsPending, FlagAioOpsPending]"
    by (simp add: i queue_leave_def set_watcher_def clear_aio_ops_pending_def
          flag_aio_ops_pending_def example_watcher_def watcher_log_def idle_non_blocking_wq_def
          init_wq_def)
  from a r show ?thesis by blast
qed

subsection \<open>Suspended writes\<close>

text \<open>
  Claim C3. While writes are suspended, \<open>_void_dequeue\<close> yields \<open>NULL\<close> for a write
  operation at the front and leaves the state as it is; a read at the front is handed
  out whatever the flag says. \<open>suspend_writes\<close> returns only in a state whose
  \<open>in_progress_writes\<close> is zero, and is still waiting when the counter is positive and
  no other thread acts; it returns with the flag set if the other threads leave the flag
  set. Along every execution from a suspended state that contains no \<open>resume_writes\<close>,
  the flag stays set, no dequeue hands out a write operation, and \<open>in_progress_writes\<close>
  does not grow.
\<close>

theorem suspended_writes_stay_queued:
  "(m_writes_suspended s \<and> m_items s = req # rest \<and> is_write_op ext req \<longrightarrow>
      void_dequeue ext s = (None, s)) \<and>
   (m_items s = AioImageRead c exts op_flags # rest \<longrightarrow>
      void_dequeue ext s = (Some (AioImageRead c exts op_flags), s\<lparr>m_items := rest\<rparr>)) \<and>
   (suspend_writes others s = Some s1 \<longrightarrow> m_in_progress_writes s1 = 0) \<and>
   (0 < m_in_progress_writes s \<longrightarrow> suspend_writes [] s = None) \<and>
   (suspend_writes others s = Some s1 \<and>
    (\<forall>other \<in> set others. \<forall>t. m_writes_suspended t \<longrightarrow> m_writes_suspended (other t)) \<longrightarrow>
      m_writes_suspended s1) \<and>
   (m_writes_suspended s \<and> run ext (s, fl) acts (s2, fl2) \<and> ResumeWrites \<notin> set acts \<longrightarrow>
      m_writes_suspended s2 \<and> m_in_progress_writes s2 \<le> m_in_progress_writes s \<and>
      (\<forall>r. Dequeue (Some r) \<in> set acts \<longrightarrow> \<not> is_write_op ext r))"
proof -
  have a: "m_writes_suspended s \<and> m_items s = req # rest \<and> is_write_op ext req \<longrightarrow>
      void_dequeue ext s = (None, s)"
    by (simp add: void_dequeue_def)
  have b: "m_items s = AioImageRead c exts op_flags # rest \<longrightarrow>
      void_dequeue ext s = (Some (AioImageRead c exts op_flags), s\<lparr>m_items := rest\<rparr>)"
    by (simp add: void_dequeue_def)
  have c: "suspend_writes others s = Some s1 \<longrightarrow> m_in_progress_writes s1 = 0"
    by (simp add: suspend_writes_def wait_in_progress_writes_returns)
  have d: "0 < m_in_progress_writes s \<longrightarrow> suspend_writes [] s = None"
    by (simp add: suspend_writes_def)
  have e: "suspend_writes others s = Some s1 \<and>
    (\<forall>other \<in> set others. \<forall>t. m_writes_suspended t \<longrightarrow> m_writes_suspended (other t)) \<longrightarrow>
      m_writes_suspended s1"
    using wait_in_progress_writes_suspended [of others "s\<lparr>m_writes_suspended := True\<rparr>" s1]
    by (simp add: suspend_writes_def)
  have f: "m_writes_suspended s \<and> run ext (s, fl) acts (s2, fl2) \<and> ResumeWrites \<notin> set acts \<longrightarrow>
      m_writes_suspended s2 \<and> m_in_progress_writes s2 \<le> m_in_progress_writes s \<and>
      (\<forall>r. Dequeue (Some r) \<in> set acts \<longrightarrow> \<not> is_write_op ext r)"
    using run_while_suspended [of ext "(s, fl)" acts "(s2, fl2)"] by simp
  from a b c d e f show ?thesis by blast
qed

text \<open>
  A suspended queue holding a write and then a read: the write is not handed out; with
  the read at the front, the read is; \<open>suspend_writes\<close> waits while a write is in
  progress.
\<close>

theorem suspended_writes_stay_queued_witness:
  "void_dequeue example_ext suspended_wq = (None, suspended_wq) \<and>
   void_dequeue example_ext (suspended_wq\<lparr>m_items := [AioImageRead 2 [(0, 8)] 0]\<rparr>) =
     (Some (AioImageRead 2 [(0, 8)] 0), suspended_wq\<lparr>m_items := []\<rparr>) \<and>
   suspend_writes [] (suspended_wq\<lparr>m_in_progress_writes := 1\<rparr>) = None \<and>
   m_in_progress_writes (suspended_wq\<lparr>m_writes_suspended := True\<rparr>) = 0 \<and>
   m_writes_suspended suspended_wq"
proof -
  let ?w = "AioImageWrite 1 0 8 (replicate 8 1) 0 False"
  let ?r = "AioImageRead 2 [(0, 8)] 0"
  have a: "m_writes_suspended suspended_wq" "m_items suspended_wq = ?w # [?r]"
    "is_write_op example_ext ?w" "m_fault suspended_wq = None"
    "m_items (suspended_wq\<lparr>m_items := [?r]\<rparr>) = ?r # []"
    "0 < m_in_progress_writes (suspended_wq\<lparr>m_in_progress_writes := 1\<rparr>)"
    by (simp_all add: suspended_wq_eq)
  have s: "suspend_writes [] suspended_wq = Some (suspended_wq\<lparr>m_writes_suspended := True\<rparr>)"
    by (simp add: suspend_writes_def suspended_wq_eq)
  note t = suspended_writes_stay_queued
             [of suspended_wq ?w "[?r]" example_ext _ _ _ "[]"
                 "suspended_wq\<lparr>m_writes_suspended := True\<rparr>" "[]" "[] @ [Dequeue None]"
                 suspended_wq "[]"]
  from t a have d: "void_dequeue example_ext suspended_wq = (None, suspended_wq)" by blast
  have "run example_ext (suspended_wq, []) ([] @ [Dequeue None]) (suspended_wq, [])"
    by (rule run_snoc [OF run_nil step_dequeue_null]) (simp_all add: a d)
  with t a have r: "m_writes_suspended suspended_wq" by simp
  from t s have z: "m_in_progress_writes (suspended_wq\<lparr>m_writes_suspended := True\<rparr>) = 0"
    by blast
  from suspended_writes_stay_queued
         [of "suspended_wq\<lparr>m_items := [?r]\<rparr>" ?w "[]" example_ext 2 "[(0, 8)]" 0] a
  have rd: "void_dequeue example_ext (suspended_wq\<lparr>m_items := [?r]\<rparr>) =
              (Some ?r, suspended_wq\<lparr>m_items := []\<rparr>)"
    by simp
  from suspended_writes_stay_queued [of "suspended_wq\<lparr>m_in_progress_writes := 1\<rparr>"] a
  have n: "suspend_writes [] (suspended_wq\<lparr>m_in_progress_writes := 1\<rparr>) = None"
    by blast
  from d rd n z r show ?thesis by blast
qed

subsection \<open>Inline or queued\<close>

text \<open>
  Claim C4. A read runs inline if and only if \<open>non_blocking_aio\<close> is false; a write
  or a discard runs inline if and only if \<open>non_blocking_aio\<close> is false and the lock is
  owned or not required; a flush runs inline if and only if \<open>non_blocking_aio\<close> is
  false and the writes queue is empty. In every other case, and only then, the request
  is appended to the queue.
\<close>

theorem inline_or_queued:
  "(ran_inline ext (AioImageRead c [(off, len)] op_flags) s (aio_read ext c off len op_flags s)
      = (\<not> non_blocking_aio (m_image_ctx s))) \<and>
   (was_queued (AioImageRead c [(off, len)] op_flags) s (aio_read ext c off len op_flags s)
      = (\<not> \<not> non_blocking_aio (m_image_ctx s))) \<and>
   (ran_inline ext (AioImageWrite c off len buf op_flags False) s
        (aio_write ext c off len buf op_flags s)
      = (\<not> non_blocking_aio (m_image_ctx s) \<and> lock_owned_or_not_required s)) \<and>
   (was_queued (AioImageWrite c off len buf op_flags False) s
        (aio_write ext c off len buf op_flags s)
      = (\<not> (\<not> non_blocking_aio (m_image_ctx s) \<and> lock_owned_or_not_required s))) \<and>
   (ran_inline ext (AioImageDiscard c off len False) s (aio_discard ext c off len s)
      = (\<not> non_blocking_aio (m_image_ctx s) \<and> lock_owned_or_not_required s)) \<and>
   (was_queued (AioImageDiscard c off len False) s (aio_discard ext c off len s)
      = (\<not> (\<not> non_blocking_aio (m_image_ctx s) \<and> lock_owned_or_not_required s))) \<and>
   (ran_inline ext (AioImageFlush c) s (aio_flush ext c s)
      = (\<not> non_blocking_aio (m_image_ctx s) \<and> writes_empty s)) \<and>
   (was_queued (AioImageFlush c) s (aio_flush ext c s)
      = (\<not> (\<not> non_blocking_aio (m_image_ctx s) \<and> writes_empty s)))"
  by (simp add: aio_read_def aio_write_def aio_discard_def aio_flush_def is_lock_required_iff
        queue_was_queued queue_not_inline static_send_ran_inline static_send_not_queued)

text \<open>
  With the lock owned a write runs inline; without it the write is queued; behind a
  queued write a flush is queued, and a read still runs inline.
\<close>

theorem inline_or_queued_witness:
  "ran_inline example_ext (AioImageWrite 1 0 8 (replicate 8 1) 0 False) idle_wq
     (aio_write example_ext 1 0 8 (replicate 8 1) 0 idle_wq) \<and>
   was_queued (AioImageWrite 1 0 8 (replicate 8 1) 0 False) (init_wq locked_ctx) one_write_queued \<and>
   was_queued (AioImageFlush 2) one_write_queued (aio_flush example_ext 2 one_write_queued) \<and>
   ran_inline example_ext (AioImageRead 3 [(0, 8)] 0) one_write_queued
     (aio_read example_ext 3 0 8 0 one_write_queued)"
proof -
  have a: "\<not> non_blocking_aio (m_image_ctx idle_wq)" "lock_owned_or_not_required idle_wq"
    "\<not> lock_owned_or_not_required (init_wq locked_ctx)"
    "\<not> writes_empty one_write_queued" "\<not> non_blocking_aio (m_image_ctx one_write_queued)"
    by (simp_all add: idle_wq_def init_wq_def example_ctx_def example_watcher_def locked_ctx_def
          lock_owned_or_not_required_def one_write_queued_eq writes_empty_def)
  from inline_or_queued [of example_ext 1 0 8 0 idle_wq "replicate 8 1"]
       inline_or_queued [of example_ext 1 0 8 0 "init_wq locked_ctx" "replicate 8 1"]
       inline_or_queued [of example_ext 2 0 8 0 one_write_queued "replicate 8 1"]
       inline_or_queued [of example_ext 3 0 8 0 one_write_queued "replicate 8 1"]
       a
  show ?thesis by (simp add: one_write_queued_def)
qed

subsection \<open>Writes to a read-only image\<close>



subsection \<open>The object request of a discard\<close>

text \<open>
  Claim C6. A discard constructs \<open>AioObjectRemove\<close> for an extent whose length is the
  object size, otherwise \<open>AioObjectTruncate\<close> for an extent that ends at the object's
  end, otherwise \<open>AioObjectZero\<close>; with \<open>rbd_skip_partial_discard\<close> set, the last case
  deletes the completion context and returns no request, so that a discard all of whose
  extents are of that kind sends no object request. So far the code does what the claim
  says. The claim goes on to have the completion of such a discard fire with success;
  the code deletes the context of each suppressed request without completing the
  child it stands for, and on the completion aggregate of the spec the outstanding
  count stays at the number of suppressed requests, whatever is answered to the rest:
  the user callback does not fire.
\<close>

theorem skipped_discard_never_completes:
  "(oe_length oe = fl_object_size ctx \<longrightarrow>
      send_object_request ctx (AioImageDiscard c off len sy) oe sc =
        ([], Some (AioObjectRemove (oe_oid oe) (oe_objectno oe) sc))) \<and>
   (oe_length oe \<noteq> fl_object_size ctx \<and> oe_offset oe + oe_length oe = fl_object_size ctx \<longrightarrow>
      send_object_request ctx (AioImageDiscard c off len sy) oe sc =
        ([], Some (AioObjectTruncate (oe_oid oe) (oe_objectno oe) (oe_offset oe) sc))) \<and>
   (interior ctx oe \<and> \<not> rbd_skip_partial_discard ctx \<longrightarrow>
      send_object_request ctx (AioImageDiscard c off len sy) oe sc =
        ([], Some (AioObjectZero (oe_oid oe) (oe_objectno oe) (oe_offset oe) (oe_length oe) sc))) \<and>
   (interior ctx oe \<and> rbd_skip_partial_discard ctx \<longrightarrow>
      send_object_request ctx (AioImageDiscard c off len sy) oe sc = ([DeleteContext c], None)) \<and>
   (rbd_skip_partial_discard ctx \<and> image_watcher ctx = Some iw \<and>
    (\<not> is_lock_supported iw \<or> is_lock_owner iw) \<and> snap_id ctx = CEPH_NOSNAP \<and>
    \<not> read_only ctx \<and> 0 \<le> ictx_check ext ctx \<and> clip_io ext ctx off len = (r, clip_len) \<and>
    0 \<le> r \<and> (\<forall>oe \<in> set (clipped_extents ext ctx off clip_len). interior ctx oe) \<and>
    clipped_extents ext ctx off clip_len \<noteq> [] \<longrightarrow>
      object_sends (fst (send ext ctx (AioImageDiscard c off len sy))) = [] \<and>
      callbacks (settle answer (fst (send ext ctx (AioImageDiscard c off len sy)))) = [] \<and>
      outstanding (settle answer (fst (send ext ctx (AioImageDiscard c off len sy)))) =
        length (clipped_extents ext ctx off clip_len))"
proof -
  have k: "object_sends (fst (send ext ctx (AioImageDiscard c off len sy))) = [] \<and>
      callbacks (settle answer (fst (send ext ctx (AioImageDiscard c off len sy)))) = [] \<and>
      outstanding (settle answer (fst (send ext ctx (AioImageDiscard c off len sy)))) =
        length (clipped_extents ext ctx off clip_len)"
    if h: "rbd_skip_partial_discard ctx" "image_watcher ctx = Some iw"
      "\<not> is_lock_supported iw \<or> is_lock_owner iw" "snap_id ctx = CEPH_NOSNAP"
      "\<not> read_only ctx" "0 \<le> ictx_check ext ctx" "clip_io ext ctx off len = (r, clip_len)"
      "0 \<le> r" "\<forall>oe \<in> set (clipped_extents ext ctx off clip_len). interior ctx oe"
      "clipped_extents ext ctx off clip_len \<noteq> []"
  proof -
    note s = skipped_discard_send [OF h(2,3,4,5,6,7,8,1,9), of c sy]
    from h(10) have p: "0 < length (clipped_extents ext ctx off clip_len)" by simp
    have o: "object_sends (fst (send ext ctx (AioImageDiscard c off len sy))) = []"
      by (simp add: s object_sends_append object_sends_skipped)
    have "callbacks (settle answer (fst (send ext ctx (AioImageDiscard c off len sy)))) = [] \<and>
          outstanding (settle answer (fst (send ext ctx (AioImageDiscard c off len sy)))) =
            length (clipped_extents ext ctx off clip_len)"
    proof (cases "journal ctx")
      case True
      with p show ?thesis
        by (simp add: s settle_def replay_append replay_skipped_children add_child_def
              new_aggregate_def pending_children_append pending_children_skipped
              finish_adding_requests_def put_reference_def dispatch_def complete_child_def)
    next
      case False
      with p show ?thesis
        by (simp add: s settle_def replay_append replay_skipped_children add_child_def
              new_aggregate_def pending_children_append pending_children_skipped
              finish_adding_requests_def put_reference_def dispatch_def)
    qed
    with o show ?thesis by simp
  qed
  then show ?thesis by (simp add: interior_def)
qed

text \<open>
  The discard of 50 bytes at offset 100 with partial discards skipped: its one extent
  is interior, no request is sent, one child stays outstanding and the callback has not
  fired when everything has been answered. The extent that covers a whole object is
  removed.
\<close>

theorem skipped_discard_never_completes_witness:
  "send_object_request skipping_ctx (AioImageDiscard 7 100 50 False)
     \<lparr>oe_oid = ''rbd_data.0'', oe_objectno = 0, oe_offset = 100, oe_length = 50,
       oe_buffer_extents = [(0, 50)]\<rparr> (0, []) = ([DeleteContext 7], None) \<and>
   send_object_request skipping_ctx (AioImageDiscard 7 0 4194304 False)
     \<lparr>oe_oid = ''rbd_data.0'', oe_objectno = 0, oe_offset = 0, oe_length = 4194304,
       oe_buffer_extents = [(0, 4194304)]\<rparr> (0, []) =
     ([], Some (AioObjectRemove ''rbd_data.0'' 0 (0, []))) \<and>
   object_sends (fst (send example_ext skipping_ctx (AioImageDiscard 7 100 50 False))) = [] \<and>
   callbacks (settle (\<lambda>k. 0) (fst (send example_ext skipping_ctx (AioImageDiscard 7 100 50 False))))
     = [] \<and>
   outstanding (settle (\<lambda>k. 0) (fst (send example_ext skipping_ctx
                                        (AioImageDiscard 7 100 50 False)))) = 1"
proof -
  let ?oe = "\<lparr>oe_oid = ''rbd_data.0'', oe_objectno = 0, oe_offset = 100, oe_length = 50,
       oe_buffer_extents = [(0, 50)]\<rparr>"
  let ?full = "\<lparr>oe_oid = ''rbd_data.0'', oe_objectno = 0, oe_offset = 0, oe_length = 4194304,
       oe_buffer_extents = [(0, 4194304)]\<rparr>"
  have c: "clip_io example_ext skipping_ctx 100 50 = (0, 50)"
    by (simp add: example_ext_def clip_io_spec_def)
  have i: "interior skipping_ctx ?oe"
    by (simp add: interior_def skipping_ctx_def example_ctx_def)
  have e: "clipped_extents example_ext skipping_ctx 100 50 = [?oe]"
    by (simp add: clipped_extents_def example_ext_def single_object_extents_def)
  have f: "fl_object_size skipping_ctx = 4194304" "rbd_skip_partial_discard skipping_ctx"
    "image_watcher skipping_ctx = Some (example_watcher True True)"
    "snap_id skipping_ctx = CEPH_NOSNAP" "\<not> read_only skipping_ctx"
    "ictx_check example_ext skipping_ctx = 0" "is_lock_owner (example_watcher True True)"
    by (simp_all add: skipping_ctx_def example_ctx_def example_ext_def example_watcher_def)
  show ?thesis
    using skipped_discard_never_completes
            [of ?oe skipping_ctx 7 100 50 False "(0, [])" "example_watcher True True" example_ext
                0 50 "\<lambda>k. 0"]
          skipped_discard_never_completes
            [of ?full skipping_ctx 7 0 4194304 False "(0, [])" "example_watcher True True"
                example_ext 0 50 "\<lambda>k. 0"]
          c i e f
    by simp
qed

subsection \<open>A write clipped to the volume\<close>

text \<open>
  Claim C7. On a plain image, with the clipping of the spec against a volume of 4096
  bytes and an extent mapper that maps the 96 bytes at offset 4000 to one object extent,
  the synchronous write of 200 bytes at offset 4000 returns 96, the completion having
  fired once with result 0 on the object store's answer 0. The calls it issues, inline
  or, on a non-blocking image with an empty queue that is not suspended, at the
  worker's turn, are those of \<open>clipped_write_calls\<close>: exactly one object write is sent,
  of the first 96 bytes of the buffer.
\<close>

theorem clipped_write_scenario:
  assumes "plain_image (m_image_ctx s)" and "clip_io ext = clip_io_spec 4096"
    and "\<forall>ctx. 0 \<le> ictx_check ext ctx" and "\<forall>ctx. file_to_extents ext ctx 4000 96 = [oe]"
    and "oe_buffer_extents oe = [(0, 96)]" and "200 \<le> length buf"
    and "w = AioObjectWrite (oe_oid oe) (oe_objectno oe) (oe_offset oe) (take 96 buf)
               (snapc (m_image_ctx s)) op_flags"
    and "answer (ObjectSend w) = 0"
    and "non_blocking_aio (m_image_ctx s) \<longrightarrow> m_items s = [] \<and> \<not> m_writes_suspended s"
  shows "fst (wq_write ext c (hd (callbacks (settle answer (clipped_write_calls c w))))
                4000 200 buf op_flags s) = 96 \<and>
         m_trace (if non_blocking_aio (m_image_ctx s)
                  then worker_turn ext (snd (wq_write ext c 0 4000 200 buf op_flags s))
                  else snd (wq_write ext c 0 4000 200 buf op_flags s)) =
           m_trace s @ clipped_write_calls c w \<and>
         object_sends (clipped_write_calls c w) = [w] \<and>
         length (take 96 buf) = 96 \<and>
         callbacks (settle answer (clipped_write_calls c w)) = [0]"
proof -
  let ?ctx = "m_image_ctx s"
  let ?w = "AioImageWrite c 4000 96 buf op_flags False"
  have c: "clip_io ext ?ctx 4000 200 = (0, 96)"
    by (simp add: assms(2) clip_io_spec_scenario)
  have n: "\<not> is_lock_required s"
    using assms(1) by (auto simp: is_lock_required_def plain_image_def split: option.splits)
  have f: "callbacks (settle answer (clipped_write_calls c w)) = [0]"
    using assms(8)
    by (simp add: clipped_write_calls_def settle_def new_aggregate_def add_child_def
          finish_adding_requests_def put_reference_def dispatch_def complete_child_def worst_def)
  have r: "fst (wq_write ext c (hd (callbacks (settle answer (clipped_write_calls c w))))
                  4000 200 buf op_flags s) = 96"
    by (simp add: f wq_write_def c)
  have t: "m_trace (if non_blocking_aio ?ctx
                    then worker_turn ext (snd (wq_write ext c 0 4000 200 buf op_flags s))
                    else snd (wq_write ext c 0 4000 200 buf op_flags s)) =
             m_trace s @ clipped_write_calls c w"
  proof (cases "non_blocking_aio ?ctx")
    case True
    let ?q = "queue ext ?w False s"
    have p: "plain_image (m_image_ctx ?q)"
      by (rule queue_write_keeps_plain_image [OF assms(1)])
    have "send ext (m_image_ctx ?q) ?w = (clipped_write_calls c w, None)"
      using plain_write_send [OF p assms(2) _ _ assms(5), of c buf op_flags False] assms(3,4,7)
      by (simp add: clipped_write_calls_def queue_keeps_snapc)
    from queued_plain_write_runs [OF assms(1) _ _ this] assms(9) True
    have "m_trace (worker_turn ext ?q) = m_trace s @ clipped_write_calls c w" by simp
    with True n show ?thesis by (simp add: wq_write_def c aio_write_def)
  next
    case False
    have "send ext ?ctx ?w = (clipped_write_calls c w, None)"
      using plain_write_send [OF assms(1,2) _ _ assms(5), of c buf op_flags False] assms(3,4,7)
      by (simp add: clipped_write_calls_def)
    with False n show ?thesis by (simp add: wq_write_def c aio_write_def static_send_def)
  qed
  from assms(6) have "length (take 96 buf) = 96" by simp
  with r t f show ?thesis by (simp add: clipped_write_calls_def)
qed

text \<open>
  The scenario on a new queue with the lock owned, dispatching inline and through the
  queue.
\<close>

theorem clipped_write_scenario_witness:
  "fst (wq_write example_ext 7 0 4000 200 (replicate 200 1) 0 idle_wq) = 96 \<and>
   m_trace (snd (wq_write example_ext 7 0 4000 200 (replicate 200 1) 0 idle_wq)) =
     [CompGet 7, CompInitTime 7 AIO_TYPE_WRITE, NewAioRequest 7,
      ObjectSend (AioObjectWrite ''rbd_data.0'' 0 4000 (replicate 96 1) (0, []) 0),
      PerfInc l_librbd_wr 1, PerfInc l_librbd_wr_bytes 96,
      CompFinishAddingRequests 7, CompPut 7] \<and>
   m_trace (worker_turn example_ext
              (snd (wq_write example_ext 7 0 4000 200 (replicate 200 1) 0 idle_non_blocking_wq))) =
     [CompGet 7, CompInitTime 7 AIO_TYPE_WRITE, NewAioRequest 7,
      ObjectSend (AioObjectWrite ''rbd_data.0'' 0 4000 (replicate 96 1) (0, []) 0),
      PerfInc l_librbd_wr 1, PerfInc l_librbd_wr_bytes 96,
      CompFinishAddingRequests 7, CompPut 7]"
proof -
  let ?oe = "\<lparr>oe_oid = ''rbd_data.0'', oe_objectno = 0, oe_offset = 4000, oe_length = 96,
             oe_buffer_extents = [(0, 96)]\<rparr>"
  let ?w = "AioObjectWrite ''rbd_data.0'' 0 4000 (replicate 96 1) (0, []) 0"
  have a: "plain_image (m_image_ctx idle_wq)" "plain_image (m_image_ctx idle_non_blocking_wq)"
    "\<not> non_blocking_aio (m_image_ctx idle_wq)"
    "non_blocking_aio (m_image_ctx idle_non_blocking_wq)"
    "m_items idle_non_blocking_wq = []" "\<not> m_writes_suspended idle_non_blocking_wq"
    "m_trace idle_wq = []" "m_trace idle_non_blocking_wq = []"
    "snapc (m_image_ctx idle_wq) = (0, [])" "snapc (m_image_ctx idle_non_blocking_wq) = (0, [])"
    by (simp_all add: idle_wq_def idle_non_blocking_wq_def init_wq_def example_ctx_def
          example_watcher_def plain_image_def)
  have e: "clip_io example_ext = clip_io_spec 4096" "\<forall>ctx. 0 \<le> ictx_check example_ext ctx"
    "\<forall>ctx. file_to_extents example_ext ctx 4000 96 = [?oe]"
    "oe_buffer_extents ?oe = [(0, 96)]" "200 \<le> length (replicate 200 (1 :: byte))"
    by (simp_all add: example_ext_def single_object_extents_def)
  have w: "?w = AioObjectWrite (oe_oid ?oe) (oe_objectno ?oe) (oe_offset ?oe)
                  (take 96 (replicate 200 1)) (snapc (m_image_ctx idle_wq)) 0"
    "?w = AioObjectWrite (oe_oid ?oe) (oe_objectno ?oe) (oe_offset ?oe)
                  (take 96 (replicate 200 1)) (snapc (m_image_ctx idle_non_blocking_wq)) 0"
    by (simp_all add: a)
  note t1 = clipped_write_scenario [OF a(1) e w(1), of "\<lambda>k. 0" 7]
  note t2 = clipped_write_scenario [OF a(2) e w(2), of "\<lambda>k. 0" 7]
  from t1 a(3) have cb: "callbacks (settle (\<lambda>k. 0) (clipped_write_calls 7 ?w)) = [0]"
    by blast
  from t1 a(3) have "fst (wq_write example_ext 7 (hd (callbacks (settle (\<lambda>k. 0)
                       (clipped_write_calls 7 ?w)))) 4000 200 (replicate 200 1) 0 idle_wq) = 96"
    by blast
  then have i1: "fst (wq_write example_ext 7 0 4000 200 (replicate 200 1) 0 idle_wq) = 96"
    by (simp add: cb)
  from t1 a(3) have i2:
    "m_trace (snd (wq_write example_ext 7 0 4000 200 (replicate 200 1) 0 idle_wq)) =
       m_trace idle_wq @ clipped_write_calls 7 ?w"
    by simp
  from t2 a(4,5,6) have q: "m_trace (worker_turn example_ext
              (snd (wq_write example_ext 7 0 4000 200 (replicate 200 1) 0 idle_non_blocking_wq))) =
       m_trace idle_non_blocking_wq @ clipped_write_calls 7 ?w"
    by simp
  from i1 i2 q a(7,8) show ?thesis by (simp add: clipped_write_calls_def)
qed

subsection \<open>Object requests and the journal\<close>

text \<open>
  Claim C8. For a write or a discard: with a journal, \<open>send_request\<close> sends no object
  request, and its one journal append carries exactly the requests constructed; without
  a journal, nothing is appended, and the requests sent are exactly those constructed.
  In \<open>send_object_requests\<close>, a request that is not stashed is sent right after its
  construction, before the next extent is looked at; the stashed ones are the constructed
  ones, and none of them is sent.
\<close>

theorem children_stashed_or_submitted:
  assumes "req = AioImageWrite c off len buf op_flags sy \<or> req = AioImageDiscard c off len sy"
  shows "(journal ctx \<longrightarrow> object_sends (fst (send_request ext ctx req)) = []) \<and>
         (\<not> journal ctx \<longrightarrow> journal_appends (fst (send_request ext ctx req)) = []) \<and>
         (image_watcher ctx = Some iw \<and> (\<not> is_lock_supported iw \<or> is_lock_owner iw) \<and>
          snap_id ctx = CEPH_NOSNAP \<and> \<not> read_only ctx \<and>
          clip_io ext ctx off len = (r, clip_len) \<and> 0 \<le> r \<longrightarrow>
            (journal ctx \<longrightarrow>
               map (\<lambda>(ev, requests, synchronous). requests)
                   (journal_appends (fst (send_request ext ctx req))) =
                 [constructed ctx req (snapc ctx) (clipped_extents ext ctx off clip_len)]) \<and>
            (\<not> journal ctx \<longrightarrow>
               object_sends (fst (send_request ext ctx req)) =
                 constructed ctx req (snapc ctx) (clipped_extents ext ctx off clip_len))) \<and>
         fst (send_object_requests ctx req sc False exts) =
           concat (map (\<lambda>oe. NewAioRequest c # fst (send_object_request ctx req oe sc)
                               @ (case snd (send_object_request ctx req oe sc) of
                                    None \<Rightarrow> [] | Some child \<Rightarrow> [ObjectSend child]))
                       exts) \<and>
         snd (send_object_requests ctx req sc True exts) = constructed ctx req sc exts \<and>
         object_sends (fst (send_object_requests ctx req sc True exts)) = []"
proof -
  have sr: "send_request ext ctx req = write_send_request ext ctx req off len"
    and mc: "m_aio_comp req = c"
    using assms by auto
  have a: "journal ctx \<longrightarrow> object_sends (fst (send_request ext ctx req)) = []"
    by (simp add: sr write_send_request_no_sends_when_journaling)
  have b: "\<not> journal ctx \<longrightarrow> journal_appends (fst (send_request ext ctx req)) = []"
    by (simp add: sr write_send_request_no_appends_without_journal)
  have j: "journal_appends (append_journal_event req requests) \<noteq> [] \<and>
           map (\<lambda>(ev, requests, synchronous). requests)
               (journal_appends (append_journal_event req requests)) = [requests]" for requests
    using assms by auto
  have d: "image_watcher ctx = Some iw \<and> (\<not> is_lock_supported iw \<or> is_lock_owner iw) \<and>
          snap_id ctx = CEPH_NOSNAP \<and> \<not> read_only ctx \<and>
          clip_io ext ctx off len = (r, clip_len) \<and> 0 \<le> r \<longrightarrow>
            (journal ctx \<longrightarrow>
               map (\<lambda>(ev, requests, synchronous). requests)
                   (journal_appends (fst (send_request ext ctx req))) =
                 [constructed ctx req (snapc ctx) (clipped_extents ext ctx off clip_len)]) \<and>
            (\<not> journal ctx \<longrightarrow>
               object_sends (fst (send_request ext ctx req)) =
                 constructed ctx req (snapc ctx) (clipped_extents ext ctx off clip_len))"
    using write_send_request_journaled [of ctx iw ext off len r clip_len req]
          write_send_request_unjournaled [of ctx iw ext off len r clip_len req] j
    by (auto simp: sr)
  have e: "fst (send_object_requests ctx req sc False exts) =
           concat (map (\<lambda>oe. NewAioRequest c # fst (send_object_request ctx req oe sc)
                               @ (case snd (send_object_request ctx req oe sc) of
                                    None \<Rightarrow> [] | Some child \<Rightarrow> [ObjectSend child]))
                       exts)"
    using send_object_requests_submit_calls [of ctx req sc exts] by (simp add: mc)
  have f: "snd (send_object_requests ctx req sc True exts) = constructed ctx req sc exts \<and>
         object_sends (fst (send_object_requests ctx req sc True exts)) = []"
    using send_object_requests_stash [of ctx req sc exts] by (cases "send_object_requests ctx req sc True exts") simp
  from a b d e f show ?thesis by blast
qed

text \<open>
  A journaled write, and a discard without journal.
\<close>

theorem children_stashed_or_submitted_witness:
  "object_sends (fst (send_request example_ext journaled_ctx
                        (AioImageWrite 7 4000 200 (replicate 200 1) 0 False))) = [] \<and>
   map (\<lambda>(ev, requests, synchronous). requests)
       (journal_appends (fst (send_request example_ext journaled_ctx
                                (AioImageWrite 7 4000 200 (replicate 200 1) 0 False)))) =
     [[AioObjectWrite ''rbd_data.0'' 0 4000 (replicate 96 1) (0, []) 0]] \<and>
   journal_appends (fst (send_request example_ext (example_ctx (Some (example_watcher False False)))
                           (AioImageDiscard 7 4000 200 False))) = [] \<and>
   object_sends (fst (send_request example_ext (example_ctx (Some (example_watcher False False)))
                        (AioImageDiscard 7 4000 200 False))) =
     [AioObjectZero ''rbd_data.0'' 0 4000 96 (0, [])]"
proof -
  let ?w = "AioImageWrite 7 4000 200 (replicate 200 1) 0 False"
  let ?d = "AioImageDiscard 7 4000 200 False"
  let ?ctx = "example_ctx (Some (example_watcher False False))"
  have c: "clip_io example_ext journaled_ctx 4000 200 = (0, 96)"
    "clip_io example_ext ?ctx 4000 200 = (0, 96)"
    by (simp_all add: example_ext_def clip_io_spec_def)
  have f: "image_watcher journaled_ctx = Some (example_watcher False False)"
    "image_watcher ?ctx = Some (example_watcher False False)"
    "\<not> is_lock_supported (example_watcher False False)"
    "snap_id journaled_ctx = CEPH_NOSNAP" "snap_id ?ctx = CEPH_NOSNAP"
    "\<not> read_only journaled_ctx" "\<not> read_only ?ctx" "journal journaled_ctx" "\<not> journal ?ctx"
    "snapc journaled_ctx = (0, [])" "snapc ?ctx = (0, [])"
    by (simp_all add: journaled_ctx_def example_ctx_def example_watcher_def)
  have k: "constructed journaled_ctx ?w (0, []) (clipped_extents example_ext journaled_ctx 4000 96) =
             [AioObjectWrite ''rbd_data.0'' 0 4000 (replicate 96 1) (0, []) 0]"
    "constructed ?ctx ?d (0, []) (clipped_extents example_ext ?ctx 4000 96) =
             [AioObjectZero ''rbd_data.0'' 0 4000 96 (0, [])]"
    by (simp_all add: constructed_def clipped_extents_def example_ext_def single_object_extents_def
          map_filter_simps journaled_ctx_def example_ctx_def assemble_extent_def)
  show ?thesis
    using children_stashed_or_submitted
            [of ?w 7 4000 200 "replicate 200 1" 0 False journaled_ctx example_ext
                "example_watcher False False" 0 96 "(0, [])" "[]"]
          children_stashed_or_submitted
            [of ?d 7 4000 200 "replicate 200 1" 0 False ?ctx example_ext
                "example_watcher False False" 0 96 "(0, [])" "[]"]
          c f k
    by simp
qed

text \<open>
  Claim C9. A journaled write appends one \<open>AioWriteEvent\<close> that holds the offset and
  the length of the request as submitted and the first \<open>m_len\<close> bytes of the source
  buffer, while the object requests handed over with it are built from the extents of
  the clipped range; none of them is sent by \<open>send_request\<close>.
\<close>

theorem journal_event_records_unclipped_request:
  assumes "image_watcher ctx = Some iw" and "\<not> is_lock_supported iw \<or> is_lock_owner iw"
    and "snap_id ctx = CEPH_NOSNAP" and "\<not> read_only ctx" and "journal ctx"
    and "clip_io ext ctx off len = (r, clip_len)" and "0 \<le> r"
  shows "journal_appends (fst (send_request ext ctx (AioImageWrite c off len buf op_flags sy))) =
           [(AioWriteEvent off len (take (unat len) buf),
             (if object_cacher ctx then []
              else map (\<lambda>oe. AioObjectWrite (oe_oid oe) (oe_objectno oe) (oe_offset oe)
                                (assemble_extent buf oe) (snapc ctx) op_flags)
                       (if clip_len > 0 then file_to_extents ext ctx off clip_len else [])),
             sy)] \<and>
         object_sends (fst (send_request ext ctx (AioImageWrite c off len buf op_flags sy))) = []"
  using write_send_request_journaled [OF assms(1-4) assms(6,7,5),
          of "AioImageWrite c off len buf op_flags sy"]
  by (simp add: constructed_write clipped_extents_def)

text \<open>
  A write of 200 bytes at offset 4000 of a journaled volume of 4096 bytes: the event
  holds 200 bytes, the object write 96.
\<close>

theorem journal_event_records_unclipped_request_witness:
  "clip_io example_ext journaled_ctx 4000 200 = (0, 96) \<and>
   journal_appends (fst (send_request example_ext journaled_ctx
                           (AioImageWrite 7 4000 200 (replicate 200 1) 0 False))) =
     [(AioWriteEvent 4000 200 (replicate 200 1),
       [AioObjectWrite ''rbd_data.0'' 0 4000 (replicate 96 1) (0, []) 0], False)] \<and>
   object_sends (fst (send_request example_ext journaled_ctx
                           (AioImageWrite 7 4000 200 (replicate 200 1) 0 False))) = []"
proof -
  have c: "clip_io example_ext journaled_ctx 4000 200 = (0, 96)"
    by (simp add: example_ext_def clip_io_spec_def)
  have w: "image_watcher journaled_ctx = Some (example_watcher False False)"
    by (simp add: journaled_ctx_def example_ctx_def)
  show ?thesis
    using journal_event_records_unclipped_request [OF w _ _ _ _ c, of 7 "replicate 200 1" 0 False] c
    by (simp add: journaled_ctx_def example_ctx_def example_watcher_def example_ext_def
          single_object_extents_def assemble_extent_def)
qed

subsection \<open>Reads and the lock\<close>

text \<open>
  Claim C10. \<open>aio_read\<close> queues the read, with \<open>lock_required\<close> false, exactly when
  \<open>non_blocking_aio\<close> is set, and runs it inline otherwise. In both cases the image
  watcher is left as it was, so neither \<open>flag_aio_ops_pending()\<close> nor \<open>request_lock()\<close>
  is called, and a queued read leaves the counter of queued writes alone. Replacing the
  watcher does not change \<open>non_blocking_aio\<close>: the lock state has no part in the
  decision.
\<close>

theorem read_never_consults_lock:
  "(non_blocking_aio (m_image_ctx s) \<longrightarrow>
      aio_read ext c off len op_flags s = queue ext (AioImageRead c [(off, len)] op_flags) False s \<and>
      was_queued (AioImageRead c [(off, len)] op_flags) s (aio_read ext c off len op_flags s) \<and>
      m_queued_writes (aio_read ext c off len op_flags s) = m_queued_writes s) \<and>
   (\<not> non_blocking_aio (m_image_ctx s) \<longrightarrow>
      ran_inline ext (AioImageRead c [(off, len)] op_flags) s (aio_read ext c off len op_flags s)) \<and>
   image_watcher (m_image_ctx (aio_read ext c off len op_flags s)) = image_watcher (m_image_ctx s) \<and>
   watcher_log (aio_read ext c off len op_flags s) = watcher_log s \<and>
   non_blocking_aio (m_image_ctx (set_watcher iw s)) = non_blocking_aio (m_image_ctx s)"
  by (simp add: aio_read_def queue_was_queued static_send_ran_inline queue_read_keeps_watcher
        static_send_keeps_ctx watcher_log_def set_watcher_def)
     (simp add: queue_def Let_def)

text \<open>
  A read submitted without the lock: queued on a non-blocking image, inline otherwise.
\<close>

theorem read_never_consults_lock_witness:
  "m_items (aio_read example_ext 3 0 8 0 non_blocking_wq) = [AioImageRead 3 [(0, 8)] 0] \<and>
   watcher_log (aio_read example_ext 3 0 8 0 non_blocking_wq) = [] \<and>
   m_trace (aio_read example_ext 3 0 8 0 (init_wq locked_ctx)) = [CompGet 3, ReadRequest 3 [(0, 8)] 0]"
proof -
  have a: "non_blocking_aio (m_image_ctx non_blocking_wq)"
    "\<not> non_blocking_aio (m_image_ctx (init_wq locked_ctx))"
    "watcher_log non_blocking_wq = []" "m_items non_blocking_wq = []"
    "m_trace (init_wq locked_ctx) = []"
    "send example_ext (m_image_ctx (init_wq locked_ctx)) (AioImageRead 3 [(0, 8)] 0) =
       ([CompGet 3, ReadRequest 3 [(0, 8)] 0], None)"
    by (simp_all add: non_blocking_wq_def init_wq_def locked_ctx_def example_ctx_def
          watcher_log_def example_watcher_def send_def example_ext_def)
  note t1 = read_never_consults_lock [of non_blocking_wq example_ext 3 0 8 0]
  note t2 = read_never_consults_lock [of "init_wq locked_ctx" example_ext 3 0 8 0]
  from t1 a(1) have q: "was_queued (AioImageRead 3 [(0, 8)] 0) non_blocking_wq
                          (aio_read example_ext 3 0 8 0 non_blocking_wq)"
    by blast
  from t1 have l: "watcher_log (aio_read example_ext 3 0 8 0 non_blocking_wq) =
                     watcher_log non_blocking_wq"
    by blast
  from t2 a(2) have i: "ran_inline example_ext (AioImageRead 3 [(0, 8)] 0) (init_wq locked_ctx)
                          (aio_read example_ext 3 0 8 0 (init_wq locked_ctx))"
    by blast
  from q l i a show ?thesis by (simp add: was_queued_def ran_inline_def)
qed

end
